theory Spec2Isabelle
  imports Main "HOL-Library.Word"
begin

section \<open>Bytes and the base64 text encoding\<close>

text \<open>An octet of a Node \<^verbatim>\<open>Buffer\<close>.\<close>

type_synonym byte = "8 word"

text \<open>
  Modelled from the spec: the base64 alphabet. The encoder behind
  \<^verbatim>\<open>Buffer.toString('base64')\<close> belongs to the Node runtime and is not part of this
  repository; section 4.3 of the specification calls it standard base64 without line
  wrapping. The character of a six bit value is its position in the alphabet
  \<^verbatim>\<open>A-Z a-z 0-9 + /\<close>; \<open>b64_char\<close> is only ever applied to values below 64.
\<close>

definition b64_alphabet :: string where
  "b64_alphabet = ''ABCDEFGHIJKLMNOPQRSTUVWXYZabcdefghijklmnopqrstuvwxyz0123456789+/''"

definition b64_char :: "nat \<Rightarrow> char" where
  "b64_char v = b64_alphabet ! v"

definition b64_value :: "char \<Rightarrow> nat option" where
  "b64_value c = map_of (zip b64_alphabet [0..<64]) c"

text \<open>
  Modelled from the spec: three octets \<open>a b c\<close> are cut into four six bit values, most
  significant bits first, and four six bit values are joined back into three octets.
\<close>

definition sextet1 :: "byte \<Rightarrow> nat" where
  "sextet1 a = unat a div 4"

definition sextet2 :: "byte \<Rightarrow> byte \<Rightarrow> nat" where
  "sextet2 a b = unat a mod 4 * 16 + unat b div 16"

definition sextet3 :: "byte \<Rightarrow> byte \<Rightarrow> nat" where
  "sextet3 b c = unat b mod 16 * 4 + unat c div 64"

definition sextet4 :: "byte \<Rightarrow> nat" where
  "sextet4 c = unat c mod 64"

definition octet1 :: "nat \<Rightarrow> nat \<Rightarrow> byte" where
  "octet1 v1 v2 = of_nat (v1 * 4 + v2 div 16)"

definition octet2 :: "nat \<Rightarrow> nat \<Rightarrow> byte" where
  "octet2 v2 v3 = of_nat (v2 mod 16 * 16 + v3 div 4)"

definition octet3 :: "nat \<Rightarrow> nat \<Rightarrow> byte" where
  "octet3 v3 v4 = of_nat (v3 mod 4 * 64 + v4)"

text \<open>
  Modelled from the spec: \<^verbatim>\<open>to_base64(bytes)\<close> of section 4.3, what
  \<^verbatim>\<open>pdfData.toString('base64')\<close> returns at line 60. Full groups of three octets give
  four characters each; a last group of two octets gives three characters and one
  \<^verbatim>\<open>=\<close>, a last single octet two characters and \<^verbatim>\<open>==\<close>. No line break is ever
  produced.
\<close>

fun to_base64 :: "byte list \<Rightarrow> string" where
  "to_base64 (a # b # c # rest) =
     [b64_char (sextet1 a), b64_char (sextet2 a b),
      b64_char (sextet3 b c), b64_char (sextet4 c)] @ to_base64 rest"
| "to_base64 [a, b] =
     [b64_char (sextet1 a), b64_char (sextet2 a b),
      b64_char (sextet3 b 0), CHR ''='']"
| "to_base64 [a] =
     [b64_char (sextet1 a), b64_char (sextet2 a 0), CHR ''='', CHR ''='']"
| "to_base64 [] = []"

text \<open>
  Modelled from the spec: \<^verbatim>\<open>decode\<close> of testable property 4, the standard decoder.
  It reads four characters at a time; padding is accepted in the last group only; any
  other character, or a length that is not a multiple of four, is an error (\<open>None\<close>).
\<close>

fun from_base64 :: "string \<Rightarrow> byte list option" where
  "from_base64 [] = Some []"
| "from_base64 (c1 # c2 # c3 # c4 # rest) =
     (case (b64_value c1, b64_value c2) of
        (Some v1, Some v2) \<Rightarrow>
          if c3 = CHR ''='' then
            (if c4 = CHR ''='' \<and> rest = [] then Some [octet1 v1 v2] else None)
          else
            (case b64_value c3 of
               None \<Rightarrow> None
             | Some v3 \<Rightarrow>
                 if c4 = CHR ''='' then
                   (if rest = [] then Some [octet1 v1 v2, octet2 v2 v3] else None)
                 else
                   (case b64_value c4 of
                      None \<Rightarrow> None
                    | Some v4 \<Rightarrow>
                        map_option
                          (\<lambda>bs. octet1 v1 v2 # octet2 v2 v3 # octet3 v3 v4 # bs)
                          (from_base64 rest)))
      | _ \<Rightarrow> None)"
| "from_base64 _ = None"

text \<open>
  Modelled from the spec: a reader of data URLs (\<^verbatim>\<open>data:<content_type>;base64,<payload>\<close>,
  section 4.3), standing for the completion service that receives \<^verbatim>\<open>file_data\<close>. It
  returns the content type and the decoded octets.
\<close>

definition parse_data_url :: "string \<Rightarrow> (string \<times> byte list) option" where
  "parse_data_url s =
     (if take 5 s = ''data:'' then
        (let r = drop 5 s;
             mt = takeWhile (\<lambda>c. c \<noteq> CHR '';'' \<and> c \<noteq> CHR '','') r;
             r' = drop (length mt) r
         in if take 8 r' = '';base64,''
            then map_option (Pair mt) (from_base64 (drop 8 r'))
            else None)
      else None)"

section \<open>Data model\<close>

subsection \<open>Attachments, span input items and span records\<close>

text \<open>\<^verbatim>\<open>new Attachment({ data, filename, contentType })\<close> (lines 153-157).\<close>

record attachment =
  data :: "byte list"
  att_filename :: string
  contentType :: string

text \<open>The content of an input item is plain text or an attachment object.\<close>

datatype item_content = Text string | Attached attachment

record item =
  role :: string
  content :: item_content

text \<open>
  Modelled from the spec: the span record of section 3. The tracing SDK (\<^verbatim>\<open>braintrust\<close>)
  is imported by the script and is not part of this repository. \<open>span_id\<close> is the
  position of the span in the store, \<open>kind\<close> is the \<^verbatim>\<open>type\<close> attribute and
  \<open>parent_ref\<close> the \<^verbatim>\<open>parent\<close> attribute.
\<close>

record span =
  span_id :: nat
  name :: "string option"
  kind :: "string option"
  parent_ref :: "string option"
  input :: "item list"
  "output" :: "string option"
  metadata :: "string \<rightharpoonup> string"

text \<open>The argument of \<^verbatim>\<open>span.setAttributes({ name, type, parent })\<close>; a key may be absent.\<close>

record attrs =
  a_name :: "string option"
  a_type :: "string option"
  a_parent :: "string option"

text \<open>The argument of \<^verbatim>\<open>span.log({ input, output, metadata })\<close>; a key may be absent.\<close>

record log_fields =
  l_input :: "item list option"
  l_output :: "string option"
  l_metadata :: "(string \<rightharpoonup> string) option"

subsection \<open>The completion service\<close>

text \<open>The request object literal of lines 68-93.\<close>

datatype content_part = FilePart string string | TextPart string

datatype request_content = Plain string | Parts "content_part list"

record request_message =
  req_role :: string
  req_content :: request_content

record chat_request =
  model :: string
  messages :: "request_message list"
  max_tokens :: nat

text \<open>
  The answer: \<^verbatim>\<open>completion.choices[0]?.message?.content\<close> (line 95) reads a list of
  choices, each with an optional message, each message with an optional text.
\<close>

datatype assistant_message = AssistantMessage "string option"

datatype choice = Choice "assistant_message option"

datatype chat_completion = ChatCompletion "choice list"

subsection \<open>Errors\<close>

text \<open>
  What the script can throw: \<^verbatim>\<open>fs.readFileSync\<close> fails on an absent or unreadable file,
  the completion call fails with an error that may carry \<^verbatim>\<open>err.response.data\<close>, and
  reading a property of \<^verbatim>\<open>undefined\<close> is a \<^verbatim>\<open>TypeError\<close>.
\<close>

datatype error =
    FileNotFound string
  | IOError string
  | UpstreamServiceError string "string option"
  | TypeError string

text \<open>\<^verbatim>\<open>err?.response?.data\<close> (line 188).\<close>

fun response_data :: "error \<Rightarrow> string option" where
  "response_data (UpstreamServiceError msg d) = d"
| "response_data _ = None"

subsection \<open>The environment\<close>

text \<open>
  Everything outside the script is a parameter of the model:
  \<^item> \<open>cwd\<close> is \<^verbatim>\<open>process.cwd()\<close>;
  \<^item> \<open>disk n p\<close> is what the \<open>n\<close>-th \<^verbatim>\<open>fs.readFileSync\<close> of the run finds at path \<open>p\<close>,
    so the file system may change between two reads;
  \<^item> \<open>completions_create\<close> is the answer of \<^verbatim>\<open>client.chat.completions.create\<close>;
  \<^item> \<open>export_string i\<close> is the opaque identifier that exporting span \<open>i\<close> resolves to;
  \<^item> \<open>export_settles_early\<close> says whether a pending export settles while the script is
    suspended in the completion call, or only when it is awaited.
\<close>

datatype file_result = Absent | Unreadable | Contents "byte list"

record env =
  cwd :: string
  disk :: "nat \<Rightarrow> string \<Rightarrow> file_result"
  completions_create :: "chat_request \<Rightarrow> error + chat_completion"
  export_string :: "nat \<Rightarrow> string"
  export_settles_early :: bool

subsection \<open>The state of a run\<close>

datatype level = Log | Warn | Error

datatype part = Str string | Num nat | Err error

text \<open>
  The trace lists, in order, every effect of the run. \<open>ExportResolved i s\<close> is the moment
  the identifier \<open>s\<close> of span \<open>i\<close> is produced; \<open>SetAttributes i a\<close> with \<open>a_parent a = Some s\<close>
  is the moment span \<open>i\<close> is linked to \<open>s\<close>.
\<close>

datatype event =
    SpanStart nat
  | SpanEnd nat
  | Console level "part list"
  | ReadFile string
  | SetAttributes nat attrs
  | SpanLog nat
  | ExportCalled nat
  | ExportResolved nat string
  | CompletionCall chat_request

text \<open>
  \<open>spans\<close> is the store of span records (a span's id is its index), \<open>stack\<close> the
  spans of the traced functions being executed (innermost first), \<open>pending\<close> the spans
  whose export has been requested and is not resolved yet, \<open>reads\<close> the number of file
  reads so far, and \<open>sink\<close> the records handed to the trace sink, in order.
\<close>

record world =
  spans :: "span list"
  stack :: "nat list"
  pending :: "nat list"
  reads :: nat
  trace :: "event list"
  sink :: "span list"

definition initial :: world where
  "initial = \<lparr>spans = [], stack = [], pending = [], reads = 0, trace = [], sink = []\<rparr>"

text \<open>A \<^verbatim>\<open>Promise<string>\<close>: a value already there, or the export of a span.\<close>

datatype promise = Settled string | ExportOf nat

section \<open>The collaborators\<close>

definition emit :: "event \<Rightarrow> world \<Rightarrow> world" where
  "emit e w = w\<lparr>trace := trace w @ [e]\<rparr>"

definition console :: "level \<Rightarrow> part list \<Rightarrow> world \<Rightarrow> world" where
  "console l ps w = emit (Console l ps) w"

text \<open>
  \<^verbatim>\<open>path.join\<close> of Node on a POSIX system: zero-length segments are ignored, the others
  are joined with \<^verbatim>\<open>/\<close>, and nothing at all gives \<^verbatim>\<open>.\<close>. Node then normalises the
  result (it resolves \<^verbatim>\<open>.\<close> and \<^verbatim>\<open>..\<close> segments and doubled separators); that step is
  the identity on the paths considered here, whose segments hold no such parts, and
  it is not modelled.
\<close>

definition path_join :: "string list \<Rightarrow> string" where
  "path_join ss =
     (case filter (\<lambda>s. s \<noteq> []) ss of
        [] \<Rightarrow> ''.''
      | s # rest \<Rightarrow> foldl (\<lambda>acc t. acc @ ''/'' @ t) s rest)"

text \<open>\<^verbatim>\<open>fs.readFileSync(p)\<close>: the whole file, or an exception.\<close>

definition readFileSync :: "env \<Rightarrow> string \<Rightarrow> world \<Rightarrow> (error + byte list) \<times> world" where
  "readFileSync e p w =
     (let w' = emit (ReadFile p) (w\<lparr>reads := Suc (reads w)\<rparr>)
      in case disk e (reads w) p of
           Contents bs \<Rightarrow> (Inr bs, w')
         | Absent \<Rightarrow> (Inl (FileNotFound p), w')
         | Unreadable \<Rightarrow> (Inl (IOError p), w'))"

text \<open>
  Modelled from the spec: \<^verbatim>\<open>currentSpan()\<close> of the tracing SDK, the span of the innermost
  traced function that is running. Outside every traced function there is none, and the
  operations below then do nothing.
\<close>

definition currentSpan :: "world \<Rightarrow> nat option" where
  "currentSpan w = (case stack w of [] \<Rightarrow> None | i # _ \<Rightarrow> Some i)"

text \<open>
  Modelled from the spec: \<^verbatim>\<open>set_attributes(span, {name?, kind?, parent_ref?})\<close> of section
  4.1, mutating the fields that are given (last write wins per field).
\<close>

definition set_span_attributes :: "attrs \<Rightarrow> span \<Rightarrow> span" where
  "set_span_attributes a s =
     s\<lparr>name := (case a_name a of None \<Rightarrow> name s | Some n \<Rightarrow> Some n),
       kind := (case a_type a of None \<Rightarrow> kind s | Some k \<Rightarrow> Some k),
       parent_ref := (case a_parent a of None \<Rightarrow> parent_ref s | Some p \<Rightarrow> Some p)\<rparr>"

definition setAttributes :: "nat option \<Rightarrow> attrs \<Rightarrow> world \<Rightarrow> world" where
  "setAttributes sp a w =
     (case sp of
        None \<Rightarrow> w
      | Some i \<Rightarrow>
          emit (SetAttributes i a)
            (w\<lparr>spans := (spans w)[i := set_span_attributes a (spans w ! i)]\<rparr>))"

text \<open>
  Modelled from the spec: \<^verbatim>\<open>log(span, {input?, output?, metadata?})\<close> of section 4.1:
  input and output are overwritten when supplied, metadata keys are merged.
\<close>

definition log_span_fields :: "log_fields \<Rightarrow> span \<Rightarrow> span" where
  "log_span_fields l s =
     s\<lparr>input := (case l_input l of None \<Rightarrow> input s | Some i \<Rightarrow> i),
       output := (case l_output l of None \<Rightarrow> output s | Some out \<Rightarrow> Some out),
       metadata := (case l_metadata l of None \<Rightarrow> metadata s | Some m \<Rightarrow> metadata s ++ m)\<rparr>"

definition span_log :: "nat option \<Rightarrow> log_fields \<Rightarrow> world \<Rightarrow> world" where
  "span_log sp l w =
     (case sp of
        None \<Rightarrow> w
      | Some i \<Rightarrow>
          emit (SpanLog i) (w\<lparr>spans := (spans w)[i := log_span_fields l (spans w ! i)]\<rparr>))"

text \<open>
  Modelled from the spec: \<^verbatim>\<open>export(span)\<close> of sections 4.1 and 4.2. The call returns at
  once with a promise; the identifier is produced later, when the promise settles.
\<close>

definition span_export :: "nat option \<Rightarrow> world \<Rightarrow> promise \<times> world" where
  "span_export sp w =
     (case sp of
        None \<Rightarrow> (Settled [], w)
      | Some i \<Rightarrow> (ExportOf i, emit (ExportCalled i) (w\<lparr>pending := pending w @ [i]\<rparr>)))"

text \<open>Every pending export settles, in the order of the requests.\<close>

definition settle_all :: "env \<Rightarrow> world \<Rightarrow> world" where
  "settle_all e w =
     w\<lparr>pending := [],
       trace := trace w @ map (\<lambda>i. ExportResolved i (export_string e i)) (pending w)\<rparr>"

text \<open>
  \<^verbatim>\<open>await p\<close> for an export promise: the script goes on with the resolved string. An
  export that is still pending settles first.
\<close>

definition await :: "env \<Rightarrow> promise \<Rightarrow> world \<Rightarrow> string \<times> world" where
  "await e p w =
     (case p of
        Settled s \<Rightarrow> (s, w)
      | ExportOf i \<Rightarrow>
          (export_string e i,
           if i \<in> set (pending w)
           then emit (ExportResolved i (export_string e i))
                  (w\<lparr>pending := removeAll i (pending w)\<rparr>)
           else w))"

text \<open>
  Modelled from the spec: \<^verbatim>\<open>wrapTraced(fn, logger)\<close>, that is \<^verbatim>\<open>create\<close> of section 4.1
  around a unit of work. A span with a fresh identifier and empty fields is allocated
  and becomes the current span; when the function returns or throws, the span is closed
  and its record is handed to the sink.
\<close>

definition empty_span :: "nat \<Rightarrow> span" where
  "empty_span i =
     \<lparr>span_id = i, name = None, kind = None, parent_ref = None,
      input = [], output = None, metadata = Map.empty\<rparr>"

definition span_start :: "world \<Rightarrow> world" where
  "span_start w =
     emit (SpanStart (length (spans w)))
       (w\<lparr>spans := spans w @ [empty_span (length (spans w))],
          stack := length (spans w) # stack w\<rparr>)"

definition span_end :: "world \<Rightarrow> world" where
  "span_end w =
     (case stack w of
        [] \<Rightarrow> w
      | i # rest \<Rightarrow> emit (SpanEnd i) (w\<lparr>stack := rest, sink := sink w @ [spans w ! i]\<rparr>))"

definition wrapTraced ::
  "(world \<Rightarrow> (error + 'a) \<times> world) \<Rightarrow> world \<Rightarrow> (error + 'a) \<times> world" where
  "wrapTraced fn w = (case fn (span_start w) of (r, w') \<Rightarrow> (r, span_end w'))"

text \<open>
  \<^verbatim>\<open>await client.chat.completions.create(request)\<close>: the script is suspended until the
  service answers or fails; a pending export may settle meanwhile.
\<close>

definition chat_completions_create ::
  "env \<Rightarrow> chat_request \<Rightarrow> world \<Rightarrow> (error + chat_completion) \<times> world" where
  "chat_completions_create e req w =
     (let w1 = emit (CompletionCall req) w;
          w2 = (if export_settles_early e then settle_all e w1 else w1)
      in (completions_create e req, w2))"

section \<open>The script\<close>

definition nl :: string where
  "nl = [CHR 0x0A]"

definition bullet :: string where
  "bullet = [CHR 0xE2, CHR 0x80, CHR 0xA2]"

text \<open>\<^verbatim>\<open>SYSTEM_PROMPT\<close> (lines 20-30); the bullet is U+2022 in UTF-8.\<close>

definition SYSTEM_PROMPT :: string where
  "SYSTEM_PROMPT =
     nl @ ''You are a financial analyst specializing in earnings call analysis. Your task is to provide a quick, bullet-point summary of the key points from earnings call transcripts.'' @ nl
     @ nl
     @ ''Focus ONLY on these 3-5 key points:'' @ nl
     @ bullet @ '' Revenue and EPS figures vs expectations'' @ nl
     @ bullet @ '' Major business highlights or challenges'' @ nl
     @ bullet @ '' Forward guidance for next quarter'' @ nl
     @ nl
     @ ''Keep each point to 1-2 sentences maximum. Be extremely concise and focus only on the most important information.'' @ nl
     @ ''Only output the key points, no other text.'' @ nl"

text \<open>An entry of the manifest \<^verbatim>\<open>pdfFiles\<close> (lines 32-41).\<close>

record manifest_entry =
  m_filename :: string
  m_url :: string

definition pdfFiles :: "manifest_entry list" where
  "pdfFiles =
     [\<lparr>m_filename = ''META-Q4-2024-Earnings-Call-Transcript.pdf'',
       m_url = ''https://s21.q4cdn.com/399680738/files/doc_financials/2024/q4/META-Q4-2024-Earnings-Call-Transcript.pdf''\<rparr>,
      \<lparr>m_filename = ''walmart-q4-fy25-earnings-call-transcript.pdf'',
       m_url = ''https://corporate.walmart.com/content/dam/corporate/documents/newsroom/2025/02/20/walmart-releases-q4-fy25-earnings/q4-fy25-earnings-call-transcript.pdf''\<rparr>,
      \<lparr>m_filename = ''Citi-4Q24-Earnings-Transcript.pdf'',
       m_url = ''https://www.citigroup.com/rcs/citigpa/storage/public/Earnings/Q42024/4Q24-Earnings-Transcript.pdf''\<rparr>,
      \<lparr>m_filename = ''jpmc-4q24-earnings-transcript.pdf'',
       m_url = ''https://www.jpmorganchase.com/content/dam/jpmc/jpmorgan-chase-and-co/investor-relations/documents/quarterly-earnings/2024/4th-quarter/4q24-earnings-transcript.pdf''\<rparr>,
      \<lparr>m_filename = ''adobe-a4t3greafe.pdf'',
       m_url = ''https://www.adobe.com/cc-shared/assets/investor-relations/pdfs/21305202/a4t3greafe.pdf''\<rparr>,
      \<lparr>m_filename = ''Qualcomm_Q1FY25EC_Transcript_2-5-24.pdf'',
       m_url = ''https://s204.q4cdn.com/645488518/files/doc_events/2025/Feb/05/QCOM_Q1FY25EC_Transcript_2-5-24.pdf''\<rparr>,
      \<lparr>m_filename = ''autodesk-q4-2025.pdf'',
       m_url = ''https://investors.autodesk.com/static-files/19993aff-b8f9-4d6a-9d6d-84062c13b4f8''\<rparr>,
      \<lparr>m_filename = ''homedepot-4q24-transcript.pdf'',
       m_url = ''https://ir.homedepot.com/~/media/Files/H/HomeDepot-IR/documents/hd-4q24-transcript.pdf''\<rparr>]"

text \<open>The records that \<^verbatim>\<open>getPdfFiles\<close> returns and \<^verbatim>\<open>processPdf\<close> takes.\<close>

record pdf_file =
  filename :: string
  path :: string
  url :: string

text \<open>
  \<^verbatim>\<open>getPdfFiles\<close> (lines 44-52). The manifest is a parameter here; the script passes
  the constant \<open>pdfFiles\<close>.
\<close>

definition getPdfFiles :: "env \<Rightarrow> manifest_entry list \<Rightarrow> pdf_file list" where
  "getPdfFiles e manifest =
     (let pdfsDir = path_join [cwd e, ''pdfs'']
      in map (\<lambda>file. \<lparr>filename = m_filename file,
                       path = path_join [pdfsDir, m_filename file],
                       url = m_url file\<rparr>) manifest)"

text \<open>\<^verbatim>\<open>logSystemPrompt\<close> (lines 119-137).\<close>

definition logSystemPrompt ::
  "env \<Rightarrow> string \<Rightarrow> string \<Rightarrow> string \<Rightarrow> promise \<Rightarrow> world \<Rightarrow> (error + unit) \<times> world" where
  "logSystemPrompt e filename' url' summary rootSpan w =
     wrapTraced
       (\<lambda>w0.
          let sp = currentSpan w0;
              (parent, w1) = await e rootSpan w0;
              w2 = setAttributes sp
                     \<lparr>a_name = Some ''system_prompt'', a_type = Some ''llm'',
                      a_parent = Some parent\<rparr> w1;
              w3 = span_log sp
                     \<lparr>l_input = Some [\<lparr>role = ''system'', content = Text SYSTEM_PROMPT\<rparr>],
                      l_output = Some summary,
                      l_metadata = None\<rparr> w2
          in (Inr (), w3))
       w"

text \<open>\<^verbatim>\<open>logUserPrompt\<close> (lines 140-173).\<close>

definition logUserPrompt ::
  "env \<Rightarrow> string \<Rightarrow> string \<Rightarrow> string \<Rightarrow> string \<Rightarrow> promise \<Rightarrow> string \<Rightarrow> world
     \<Rightarrow> (error + unit) \<times> world" where
  "logUserPrompt e filename' url' userPrompt summary rootSpan base64String w =
     wrapTraced
       (\<lambda>w0.
          let sp = currentSpan w0;
              (parent, w1) = await e rootSpan w0;
              w2 = setAttributes sp
                     \<lparr>a_name = Some ''user_prompt'', a_type = Some ''llm'',
                      a_parent = Some parent\<rparr> w1;
              pdfPath = path_join [cwd e, ''pdfs'', filename'];
              (r, w3) = readFileSync e pdfPath w2
          in case r of
               Inl err \<Rightarrow> (Inl err, w3)
             | Inr pdfData \<Rightarrow>
                 (let att = \<lparr>data = pdfData, att_filename = filename',
                             contentType = ''application/pdf''\<rparr>;
                      w4 = span_log sp
                             \<lparr>l_input = Some [\<lparr>role = ''user'', content = Text userPrompt\<rparr>,
                                              \<lparr>role = ''user'', content = Attached att\<rparr>],
                              l_output = Some summary,
                              l_metadata = Some [''filename'' \<mapsto> filename',
                                                 ''url'' \<mapsto> url',
                                                 ''base64String'' \<mapsto> base64String]\<rparr> w3
                  in (Inr (), w4)))
       w"

text \<open>The request of lines 68-93.\<close>

definition completion_request :: "pdf_file \<Rightarrow> string \<Rightarrow> string \<Rightarrow> chat_request" where
  "completion_request pdfFile base64String userPrompt =
     \<lparr>model = ''gpt-4o'',
      messages =
        [\<lparr>req_role = ''system'', req_content = Plain SYSTEM_PROMPT\<rparr>,
         \<lparr>req_role = ''user'',
          req_content =
            Parts [FilePart (filename pdfFile) (''data:application/pdf;base64,'' @ base64String),
                   TextPart userPrompt]\<rparr>],
      max_tokens = 500\<rparr>"

text \<open>\<^verbatim>\<open>completion.choices[0]?.message?.content\<close> (line 95).\<close>

fun first_content :: "chat_completion \<Rightarrow> string option" where
  "first_content (ChatCompletion []) = None"
| "first_content (ChatCompletion (Choice None # _)) = None"
| "first_content (ChatCompletion (Choice (Some (AssistantMessage c)) # _)) = c"

text \<open>
  The function that \<^verbatim>\<open>processPdf\<close> wraps (lines 55-116). \<^verbatim>\<open>!summary\<close> holds for an
  absent text and for the empty string.
\<close>

definition processPdf_body :: "env \<Rightarrow> pdf_file \<Rightarrow> world \<Rightarrow> (error + unit) \<times> world" where
  "processPdf_body e pdfFile w =
     (let w1 = console Log [Str ''Processing '', Str (filename pdfFile), Str ''...''] w;
          (r, w2) = readFileSync e (path pdfFile) w1
      in case r of
           Inl err \<Rightarrow> (Inl err, w2)
         | Inr pdfData \<Rightarrow>
             (let base64String = to_base64 pdfData;
                  userPrompt = ''Please analyze this earnings call transcript'';
                  rootSpan = currentSpan w2;
                  w3 = setAttributes rootSpan
                         \<lparr>a_name = Some (filename pdfFile), a_type = None, a_parent = None\<rparr> w2;
                  (rootSpanSlug, w4) = span_export (currentSpan w3) w3;
                  (c, w5) = chat_completions_create e
                              (completion_request pdfFile base64String userPrompt) w4
              in case c of
                   Inl err \<Rightarrow> (Inl err, w5)
                 | Inr completion \<Rightarrow>
                     (case first_content completion of
                        None \<Rightarrow> (Inr (), console Warn [Str ''No summary generated''] w5)
                      | Some summary \<Rightarrow>
                          if summary = [] then
                            (Inr (), console Warn [Str ''No summary generated''] w5)
                          else
                            (let w6 = console Log
                                        [Str (nl @ ''Earnings Summary for ''),
                                         Str (filename pdfFile),
                                         Str ('': Summary Created! View in the Braintrust UI}'' @ nl)]
                                        w5;
                                 w7 = span_log rootSpan
                                        \<lparr>l_input = None, l_output = Some summary,
                                         l_metadata = None\<rparr> w6;
                                 (r1, w8) = logSystemPrompt e (filename pdfFile) (url pdfFile)
                                              summary rootSpanSlug w7
                             in case r1 of
                                  Inl err \<Rightarrow> (Inl err, w8)
                                | Inr _ \<Rightarrow>
                                    logUserPrompt e (filename pdfFile) (url pdfFile)
                                      userPrompt summary rootSpanSlug base64String w8))))"

definition processPdf :: "env \<Rightarrow> pdf_file \<Rightarrow> world \<Rightarrow> (error + unit) \<times> world" where
  "processPdf e pdfFile w = wrapTraced (processPdf_body e pdfFile) w"

text \<open>
  \<^verbatim>\<open>processPdf(undefined)\<close>, what \<^verbatim>\<open>processPdf(pdfFiles[0])\<close> is for an empty manifest:
  the traced function throws on \<^verbatim>\<open>pdfFile.filename\<close> in its first statement.
\<close>

definition processPdf_undefined :: "world \<Rightarrow> (error + unit) \<times> world" where
  "processPdf_undefined w =
     wrapTraced (\<lambda>w0. (Inl (TypeError ''Cannot read properties of undefined''), w0)) w"

text \<open>
  The handler of the \<^verbatim>\<open>try\<close> in \<^verbatim>\<open>generateSummary\<close> (lines 186-191): an error is
  logged, and \<^verbatim>\<open>err.response.data\<close> too when it is truthy. Nothing is retried.
\<close>

definition main_catch :: "(error + unit) \<times> world \<Rightarrow> world" where
  "main_catch rw =
     (case rw of
        (Inr _, w) \<Rightarrow> w
      | (Inl err, w) \<Rightarrow>
          (let w1 = console Error [Str ''Error in main:'', Err err] w
           in case response_data err of
                None \<Rightarrow> w1
              | Some d \<Rightarrow>
                  if d = [] then w1
                  else console Error [Str ''Response data:'', Str d] w1))"

text \<open>
  \<^verbatim>\<open>generateSummary\<close> (lines 177-192), with the manifest as a parameter. The loop over
  all files is commented out (lines 182-184); line 185 processes \<^verbatim>\<open>pdfFiles[0]\<close>.
\<close>

definition generateSummary_on :: "env \<Rightarrow> manifest_entry list \<Rightarrow> world \<Rightarrow> world" where
  "generateSummary_on e manifest w =
     (let pdfFiles' = getPdfFiles e manifest;
          w1 = console Log [Str ''Found '', Num (length pdfFiles'), Str '' PDFs to process''] w
      in main_catch
           (case pdfFiles' of
              [] \<Rightarrow> processPdf_undefined w1
            | first # _ \<Rightarrow> processPdf e first w1))"

text \<open>The run of the script: \<^verbatim>\<open>generateSummary()\<close> at line 194, on the static manifest.\<close>

definition generateSummary :: "env \<Rightarrow> world" where
  "generateSummary e = generateSummary_on e pdfFiles initial"

section \<open>Vocabulary for stating the properties\<close>

text \<open>The shapes a span record of the script can have.\<close>

definition root_span :: "nat \<Rightarrow> string \<Rightarrow> string option \<Rightarrow> span" where
  "root_span i fn out =
     \<lparr>span_id = i, name = Some fn, kind = None, parent_ref = None,
      input = [], output = out, metadata = Map.empty\<rparr>"

definition system_span :: "nat \<Rightarrow> string \<Rightarrow> string \<Rightarrow> span" where
  "system_span i parent summary =
     \<lparr>span_id = i, name = Some ''system_prompt'', kind = Some ''llm'',
      parent_ref = Some parent,
      input = [\<lparr>role = ''system'', content = Text SYSTEM_PROMPT\<rparr>],
      output = Some summary, metadata = Map.empty\<rparr>"

definition linked_span :: "nat \<Rightarrow> string \<Rightarrow> string \<Rightarrow> span" where
  "linked_span i n parent =
     \<lparr>span_id = i, name = Some n, kind = Some ''llm'', parent_ref = Some parent,
      input = [], output = None, metadata = Map.empty\<rparr>"

definition user_span ::
  "nat \<Rightarrow> string \<Rightarrow> string \<Rightarrow> string \<Rightarrow> string \<Rightarrow> string \<Rightarrow> string \<Rightarrow> byte list \<Rightarrow> span" where
  "user_span i parent userPrompt summary fn u b64 bytes =
     \<lparr>span_id = i, name = Some ''user_prompt'', kind = Some ''llm'',
      parent_ref = Some parent,
      input = [\<lparr>role = ''user'', content = Text userPrompt\<rparr>,
               \<lparr>role = ''user'',
                content = Attached \<lparr>data = bytes, att_filename = fn,
                                     contentType = ''application/pdf''\<rparr>\<rparr>],
      output = Some summary,
      metadata = [''filename'' \<mapsto> fn, ''url'' \<mapsto> u, ''base64String'' \<mapsto> b64]\<rparr>"

text \<open>The attribute sets and messages the script uses.\<close>

definition name_attrs :: "string \<Rightarrow> attrs" where
  "name_attrs n = \<lparr>a_name = Some n, a_type = None, a_parent = None\<rparr>"

definition link_attrs :: "string \<Rightarrow> string \<Rightarrow> attrs" where
  "link_attrs n parent = \<lparr>a_name = Some n, a_type = Some ''llm'', a_parent = Some parent\<rparr>"

definition user_prompt_text :: string where
  "user_prompt_text = ''Please analyze this earnings call transcript''"

definition processing_msg :: "pdf_file \<Rightarrow> event" where
  "processing_msg f = Console Log [Str ''Processing '', Str (filename f), Str ''...'']"

definition created_msg :: "pdf_file \<Rightarrow> event" where
  "created_msg f =
     Console Log [Str (nl @ ''Earnings Summary for ''), Str (filename f),
                  Str ('': Summary Created! View in the Braintrust UI}'' @ nl)]"

text \<open>The error that a failed read throws.\<close>

definition read_error :: "file_result \<Rightarrow> string \<Rightarrow> error" where
  "read_error r p = (case r of Unreadable \<Rightarrow> IOError p | _ \<Rightarrow> FileNotFound p)"

text \<open>
  The events of one \<^verbatim>\<open>processPdf\<close> call, by phase. \<open>settled_now\<close> are the exports
  that settle during the completion call, \<open>resolved_now\<close> is the export that settles
  when it is awaited.
\<close>

definition settled_now :: "env \<Rightarrow> nat list \<Rightarrow> event list" where
  "settled_now e P =
     (if export_settles_early e then map (\<lambda>i. ExportResolved i (export_string e i)) P else [])"

definition pending_after :: "env \<Rightarrow> nat list \<Rightarrow> nat list" where
  "pending_after e P = (if export_settles_early e then [] else P)"

definition resolved_now :: "env \<Rightarrow> nat \<Rightarrow> nat list \<Rightarrow> event list" where
  "resolved_now e r P = (if r \<in> set P then [ExportResolved r (export_string e r)] else [])"

definition prefix_events :: "env \<Rightarrow> pdf_file \<Rightarrow> byte list \<Rightarrow> nat list \<Rightarrow> nat \<Rightarrow> event list" where
  "prefix_events e f bs P n =
     [SpanStart n, processing_msg f, ReadFile (path f),
      SetAttributes n (name_attrs (filename f)), ExportCalled n,
      CompletionCall (completion_request f (to_base64 bs) user_prompt_text)]
     @ settled_now e (P @ [n])"

definition children_events :: "env \<Rightarrow> pdf_file \<Rightarrow> nat list \<Rightarrow> nat \<Rightarrow> event list" where
  "children_events e f P n =
     [created_msg f, SpanLog n, SpanStart (Suc n)]
     @ resolved_now e n (pending_after e (P @ [n]))
     @ [SetAttributes (Suc n) (link_attrs ''system_prompt'' (export_string e n)),
        SpanLog (Suc n), SpanEnd (Suc n),
        SpanStart (Suc (Suc n)),
        SetAttributes (Suc (Suc n)) (link_attrs ''user_prompt'' (export_string e n)),
        ReadFile (path_join [cwd e, ''pdfs'', filename f])]"

text \<open>The record that \<^verbatim>\<open>getPdfFiles\<close> builds for one manifest entry.\<close>

definition file_record :: "env \<Rightarrow> manifest_entry \<Rightarrow> pdf_file" where
  "file_record e m =
     \<lparr>filename = m_filename m,
      path = path_join [path_join [cwd e, ''pdfs''], m_filename m],
      url = m_url m\<rparr>"

text \<open>The first console line of a run, and what the handler of the run writes.\<close>

definition found_msg :: "nat \<Rightarrow> event" where
  "found_msg k = Console Log [Str ''Found '', Num k, Str '' PDFs to process'']"

definition catch_events :: "error \<Rightarrow> event list" where
  "catch_events err =
     Console Error [Str ''Error in main:'', Err err]
     # (case response_data err of
          None \<Rightarrow> []
        | Some d \<Rightarrow> if d = [] then [] else [Console Error [Str ''Response data:'', Str d]])"


text \<open>The attachments among the items of a span input.\<close>

fun attachments :: "item list \<Rightarrow> attachment list" where
  "attachments [] = []"
| "attachments (it # its) =
     (case content it of
        Attached a \<Rightarrow> a # attachments its
      | Text _ \<Rightarrow> attachments its)"

text \<open>The \<^verbatim>\<open>file_data\<close> strings of a request.\<close>

fun part_file_data :: "content_part \<Rightarrow> string list" where
  "part_file_data (FilePart n d) = [d]"
| "part_file_data (TextPart t) = []"

fun content_file_data :: "request_content \<Rightarrow> string list" where
  "content_file_data (Plain t) = []"
| "content_file_data (Parts ps) = concat (map part_file_data ps)"

definition request_file_data :: "chat_request \<Rightarrow> string list" where
  "request_file_data req = concat (map (\<lambda>m. content_file_data (req_content m)) (messages req))"

text \<open>Kinds of events.\<close>

fun is_read :: "event \<Rightarrow> bool" where
  "is_read (ReadFile p) = True"
| "is_read _ = False"

fun is_completion_call :: "event \<Rightarrow> bool" where
  "is_completion_call (CompletionCall r) = True"
| "is_completion_call _ = False"

fun is_processing :: "event \<Rightarrow> bool" where
  "is_processing (Console Log (Str s # ps)) = (s = ''Processing '')"
| "is_processing _ = False"

text \<open>The requests sent to the completion service, in order.\<close>

fun requests_sent :: "event list \<Rightarrow> chat_request list" where
  "requests_sent [] = []"
| "requests_sent (CompletionCall req # es) = req # requests_sent es"
| "requests_sent (ev # es) = requests_sent es"

text \<open>
  For each completion call of a trace, the exports that are in flight when the call
  is issued: requested (\<open>ExportCalled\<close>) and not resolved yet (\<open>ExportResolved\<close>);
  \<open>pend\<close> are the exports in flight at the start of the trace. A script that awaited
  every export before going on would give the empty list at every call.
\<close>

fun pending_at_calls :: "nat list \<Rightarrow> event list \<Rightarrow> nat list list" where
  "pending_at_calls pend [] = []"
| "pending_at_calls pend (ExportCalled r # es) = pending_at_calls (pend @ [r]) es"
| "pending_at_calls pend (ExportResolved r s # es) = pending_at_calls (removeAll r pend) es"
| "pending_at_calls pend (CompletionCall req # es) = pend # pending_at_calls pend es"
| "pending_at_calls pend (ev # es) = pending_at_calls pend es"

text \<open>
  A checker for the linking discipline: scanning the trace from the start, every link
  of a span \<open>i\<close> to an identifier \<open>s\<close> comes after the event that resolved \<open>s\<close> as the
  export of an older span; \<open>seen\<close> are the spans whose export has resolved so far.
\<close>

fun linked_after_export :: "env \<Rightarrow> nat list \<Rightarrow> event list \<Rightarrow> bool" where
  "linked_after_export e seen [] = True"
| "linked_after_export e seen (ExportResolved r s # es) =
     (s = export_string e r \<and> linked_after_export e (r # seen) es)"
| "linked_after_export e seen (SetAttributes i a # es) =
     ((case a_parent a of
         None \<Rightarrow> True
       | Some s \<Rightarrow> (\<exists>r \<in> set seen. r < i \<and> s = export_string e r))
      \<and> linked_after_export e seen es)"
| "linked_after_export e seen (ev # es) = linked_after_export e seen es"

text \<open>
  A checker for the nesting of span lifetimes: a span is closed only when it is the
  innermost open one, and at the end none is open.
\<close>

fun well_nested :: "nat list \<Rightarrow> event list \<Rightarrow> bool" where
  "well_nested st [] = (st = [])"
| "well_nested st (SpanStart i # es) = well_nested (i # st) es"
| "well_nested st (SpanEnd i # es) =
     (case st of [] \<Rightarrow> False | j # st' \<Rightarrow> i = j \<and> well_nested st' es)"
| "well_nested st (ev # es) = well_nested st es"

text \<open>
  The end-to-end scenario of the specification (testable property 6): the file
  \<^verbatim>\<open>report.pdf\<close> with bytes \<^verbatim>\<open>%PDF-1.4\<close>, its manifest entry, and a completion service
  that answers with two bullet points.
\<close>

definition scenario_entry :: manifest_entry where
  "scenario_entry =
     \<lparr>m_filename = ''report.pdf'', m_url = ''https://example.com/report.pdf''\<rparr>"

definition scenario_bytes :: "byte list" where
  "scenario_bytes = [0x25, 0x50, 0x44, 0x46, 0x2D, 0x31, 0x2E, 0x34]"

definition scenario_summary :: string where
  "scenario_summary = ''- Revenue beat.'' @ nl @ ''- Guidance raised.''"

definition answer :: "string option \<Rightarrow> error + chat_completion" where
  "answer c = Inr (ChatCompletion [Choice (Some (AssistantMessage c))])"

definition scenario_env :: env where
  "scenario_env =
     \<lparr>cwd = ''/app'',
      disk = (\<lambda>n p. if p = ''/app/pdfs/report.pdf'' then Contents scenario_bytes else Absent),
      completions_create = (\<lambda>req. answer (Some scenario_summary)),
      export_string = (\<lambda>i. ''span-'' @ replicate i (CHR ''i'')),
      export_settles_early = False\<rparr>"

definition scenario_file :: pdf_file where
  "scenario_file =
     \<lparr>filename = ''report.pdf'', path = ''/app/pdfs/report.pdf'',
      url = ''https://example.com/report.pdf''\<rparr>"

text \<open>Variants: the file is rewritten between the two reads (\<^verbatim>\<open>%PDF-1.7\<close>); the
  service answers without content; the service fails with a payload; the file is absent.\<close>

definition rewritten_bytes :: "byte list" where
  "rewritten_bytes = [0x25, 0x50, 0x44, 0x46, 0x2D, 0x31, 0x2E, 0x37]"

definition rewritten_env :: env where
  "rewritten_env =
     scenario_env\<lparr>disk := (\<lambda>n p. if p = ''/app/pdfs/report.pdf''
                                   then Contents (if n = 0 then scenario_bytes else rewritten_bytes)
                                   else Absent)\<rparr>"

definition silent_env :: env where
  "silent_env = scenario_env\<lparr>completions_create := (\<lambda>req. Inr (ChatCompletion []))\<rparr>"




definition stocked_env :: env where
  "stocked_env = scenario_env\<lparr>disk := (\<lambda>n p. Contents scenario_bytes)\<rparr>"

definition stocked_early_env :: env where
  "stocked_early_env = stocked_env\<lparr>export_settles_early := True\<rparr>"

section \<open>Base64: decoding inverts encoding\<close>

lemma b64_alphabet_length: "length b64_alphabet = 64"
  by (simp add: b64_alphabet_def)

lemma b64_alphabet_distinct: "distinct b64_alphabet"
  by (simp add: b64_alphabet_def)

lemma b64_value_char: "v < 64 \<Longrightarrow> b64_value (b64_char v) = Some v"
  unfolding b64_value_def b64_char_def
  using map_of_zip_nth [of b64_alphabet "[0..<64]" v]
  by (simp add: b64_alphabet_length b64_alphabet_distinct)

lemma b64_char_in: "v < 64 \<Longrightarrow> b64_char v \<in> set b64_alphabet"
  by (simp add: b64_char_def b64_alphabet_length)

lemma pad_notin: "CHR ''='' \<notin> set b64_alphabet"
  by (simp add: b64_alphabet_def)

lemma b64_char_not_pad: "v < 64 \<Longrightarrow> b64_char v \<noteq> CHR ''=''"
  using b64_char_in pad_notin by metis

lemma byte_bound: "unat (a :: byte) < 256"
  using unsigned_less [of a] by simp

lemma sextet1_less: "sextet1 a < 64"
  using byte_bound [of a] by (simp add: sextet1_def)

lemma sextet2_less: "sextet2 a b < 64"
proof -
  have "unat b div 16 < 16" using byte_bound [of b] by simp
  moreover have "unat a mod 4 < 4" by simp
  ultimately show ?thesis unfolding sextet2_def by linarith
qed

lemma sextet3_less: "sextet3 b c < 64"
proof -
  have "unat c div 64 < 4" using byte_bound [of c] by simp
  moreover have "unat b mod 16 < 16" by simp
  ultimately show ?thesis unfolding sextet3_def by linarith
qed

lemma sextet4_less: "sextet4 c < 64"
  by (simp add: sextet4_def)

lemma octet1_sextets: "octet1 (sextet1 a) (sextet2 a b) = a"
proof -
  have "unat b div 16 < 16" using byte_bound [of b] by simp
  then have "(unat a mod 4 * 16 + unat b div 16) div 16 = unat a mod 4" by simp
  then have "unat a div 4 * 4 + (unat a mod 4 * 16 + unat b div 16) div 16 = unat a"
    by simp
  then show ?thesis unfolding octet1_def sextet1_def sextet2_def by simp
qed

lemma octet2_sextets: "octet2 (sextet2 a b) (sextet3 b c) = b"
proof -
  have c: "unat c div 64 < 4" using byte_bound [of c] by simp
  have b: "unat b div 16 < 16" using byte_bound [of b] by simp
  have "(unat a mod 4 * 16 + unat b div 16) mod 16 = unat b div 16" using b by simp
  moreover have "(unat b mod 16 * 4 + unat c div 64) div 4 = unat b mod 16" using c by simp
  ultimately have "(unat a mod 4 * 16 + unat b div 16) mod 16 * 16
      + (unat b mod 16 * 4 + unat c div 64) div 4 = unat b" by simp
  then show ?thesis unfolding octet2_def sextet2_def sextet3_def by simp
qed

lemma octet3_sextets: "octet3 (sextet3 b c) (sextet4 c) = c"
proof -
  have c: "unat c div 64 < 4" using byte_bound [of c] by simp
  have "(unat b mod 16 * 4 + unat c div 64) mod 4 = unat c div 64" using c by simp
  then have "(unat b mod 16 * 4 + unat c div 64) mod 4 * 64 + unat c mod 64 = unat c"
    by simp
  then show ?thesis unfolding octet3_def sextet3_def sextet4_def by simp
qed

lemmas sextet_less = sextet1_less sextet2_less sextet3_less sextet4_less
lemmas octet_sextets = octet1_sextets octet2_sextets octet3_sextets

lemma from_to_base64: "from_base64 (to_base64 bs) = Some bs"
proof (induction bs rule: to_base64.induct)
  case (1 a b c rest)
  then show ?case
    by (simp add: b64_value_char b64_char_not_pad sextet_less octet_sextets)
next
  case (2 a b)
  show ?case
    by (simp add: b64_value_char b64_char_not_pad sextet_less octet_sextets)
next
  case (3 a)
  show ?case
    by (simp add: b64_value_char b64_char_not_pad sextet_less octet_sextets)
next
  case 4
  show ?case by simp
qed

section \<open>Paths\<close>

text \<open>
  \<^verbatim>\<open>getPdfFiles\<close> joins in two steps what \<^verbatim>\<open>logUserPrompt\<close> joins in one; the path is
  the same.
\<close>

lemma path_join_nested [simp]:
  "path_join [path_join [c, ''pdfs''], fn] = path_join [c, ''pdfs'', fn]"
  by (cases c; cases fn) (simp_all add: path_join_def)

lemma path_join_scenario [simp]:
  "path_join [''/app'', ''pdfs'', ''report.pdf''] = ''/app/pdfs/report.pdf''"
  by (simp add: path_join_def)

section \<open>What each function of the script does to the state\<close>

lemmas prims = emit_def console_def readFileSync_def currentSpan_def setAttributes_def
  span_log_def span_export_def settle_all_def await_def span_start_def span_end_def
  wrapTraced_def chat_completions_create_def

lemma resolved_now_removeAll: "resolved_now e r (removeAll r P) = []"
  by (simp add: resolved_now_def)

lemma resolved_now_Nil: "resolved_now e r [] = []"
  by (simp add: resolved_now_def)

lemma logSystemPrompt_run:
  "logSystemPrompt e fn u s (ExportOf r)
     \<lparr>spans = S, stack = K, pending = P, reads = R, trace = T, sink = Z\<rparr> =
   (Inr (),
    \<lparr>spans = S @ [system_span (length S) (export_string e r) s],
     stack = K, pending = removeAll r P, reads = R,
     trace = T @ [SpanStart (length S)] @ resolved_now e r P
               @ [SetAttributes (length S) (link_attrs ''system_prompt'' (export_string e r)),
                  SpanLog (length S), SpanEnd (length S)],
     sink = Z @ [system_span (length S) (export_string e r) s]\<rparr>)"
  by (simp add: logSystemPrompt_def prims system_span_def link_attrs_def resolved_now_def
      set_span_attributes_def log_span_fields_def empty_span_def)

lemma logUserPrompt_ok:
  assumes "disk e R (path_join [cwd e, ''pdfs'', fn]) = Contents bs"
  shows "logUserPrompt e fn u up s (ExportOf r) b64
     \<lparr>spans = S, stack = K, pending = P, reads = R, trace = T, sink = Z\<rparr> =
   (Inr (),
    \<lparr>spans = S @ [user_span (length S) (export_string e r) up s fn u b64 bs],
     stack = K, pending = removeAll r P, reads = Suc R,
     trace = T @ [SpanStart (length S)] @ resolved_now e r P
               @ [SetAttributes (length S) (link_attrs ''user_prompt'' (export_string e r)),
                  ReadFile (path_join [cwd e, ''pdfs'', fn]),
                  SpanLog (length S), SpanEnd (length S)],
     sink = Z @ [user_span (length S) (export_string e r) up s fn u b64 bs]\<rparr>)"
  using assms
  by (simp add: logUserPrompt_def prims user_span_def link_attrs_def resolved_now_def
      set_span_attributes_def log_span_fields_def empty_span_def)

lemma logUserPrompt_fail:
  assumes "disk e R (path_join [cwd e, ''pdfs'', fn]) = fr" "fr = Absent \<or> fr = Unreadable"
  shows "logUserPrompt e fn u up s (ExportOf r) b64
     \<lparr>spans = S, stack = K, pending = P, reads = R, trace = T, sink = Z\<rparr> =
   (Inl (read_error fr (path_join [cwd e, ''pdfs'', fn])),
    \<lparr>spans = S @ [linked_span (length S) ''user_prompt'' (export_string e r)],
     stack = K, pending = removeAll r P, reads = Suc R,
     trace = T @ [SpanStart (length S)] @ resolved_now e r P
               @ [SetAttributes (length S) (link_attrs ''user_prompt'' (export_string e r)),
                  ReadFile (path_join [cwd e, ''pdfs'', fn]),
                  SpanEnd (length S)],
     sink = Z @ [linked_span (length S) ''user_prompt'' (export_string e r)]\<rparr>)"
proof -
  from assms(2) show ?thesis
  proof
    assume "fr = Absent"
    with assms(1) show ?thesis
      by (simp add: logUserPrompt_def prims linked_span_def link_attrs_def resolved_now_def
          read_error_def Let_def
          set_span_attributes_def log_span_fields_def empty_span_def)
  next
    assume "fr = Unreadable"
    with assms(1) show ?thesis
      by (simp add: logUserPrompt_def prims linked_span_def link_attrs_def resolved_now_def
          read_error_def Let_def
          set_span_attributes_def log_span_fields_def empty_span_def)
  qed
qed



lemma processPdf_read_fail:
  assumes "disk e R (path f) = fr" "fr = Absent \<or> fr = Unreadable"
  shows "processPdf e f \<lparr>spans = S, stack = K, pending = P, reads = R, trace = T, sink = Z\<rparr> =
    (Inl (read_error fr (path f)),
     \<lparr>spans = S @ [empty_span (length S)], stack = K, pending = P, reads = Suc R,
      trace = T @ [SpanStart (length S), processing_msg f, ReadFile (path f), SpanEnd (length S)],
      sink = Z @ [empty_span (length S)]\<rparr>)"
proof -
  from assms(2) show ?thesis
  proof
    assume "fr = Absent"
    with assms(1) show ?thesis
      by (simp add: processPdf_def processPdf_body_def prims read_error_def Let_def
          processing_msg_def)
  next
    assume "fr = Unreadable"
    with assms(1) show ?thesis
      by (simp add: processPdf_def processPdf_body_def prims read_error_def Let_def
          processing_msg_def)
  qed
qed

lemma processPdf_upstream_fail:
  assumes "disk e R (path f) = Contents bs"
    and "completions_create e (completion_request f (to_base64 bs) user_prompt_text) = Inl err"
  shows "processPdf e f \<lparr>spans = S, stack = K, pending = P, reads = R, trace = T, sink = Z\<rparr> =
    (Inl err,
     \<lparr>spans = S @ [root_span (length S) (filename f) None], stack = K,
      pending = pending_after e (P @ [length S]), reads = Suc R,
      trace = T @ prefix_events e f bs P (length S) @ [SpanEnd (length S)],
      sink = Z @ [root_span (length S) (filename f) None]\<rparr>)"
  using assms
  by (simp add: processPdf_def processPdf_body_def prims Let_def
      processing_msg_def prefix_events_def settled_now_def pending_after_def
      user_prompt_text_def name_attrs_def root_span_def
      set_span_attributes_def empty_span_def)

lemma processPdf_no_content:
  assumes "disk e R (path f) = Contents bs"
    and "completions_create e (completion_request f (to_base64 bs) user_prompt_text) = Inr c"
    and "first_content c = None \<or> first_content c = Some []"
  shows "processPdf e f \<lparr>spans = S, stack = K, pending = P, reads = R, trace = T, sink = Z\<rparr> =
    (Inr (),
     \<lparr>spans = S @ [root_span (length S) (filename f) None], stack = K,
      pending = pending_after e (P @ [length S]), reads = Suc R,
      trace = T @ prefix_events e f bs P (length S)
                @ [Console Warn [Str ''No summary generated''], SpanEnd (length S)],
      sink = Z @ [root_span (length S) (filename f) None]\<rparr>)"
proof -
  from assms(3) show ?thesis
  proof
    assume "first_content c = None"
    with assms(1,2) show ?thesis
      by (simp add: processPdf_def processPdf_body_def prims Let_def
          processing_msg_def prefix_events_def settled_now_def pending_after_def
          user_prompt_text_def name_attrs_def root_span_def
          set_span_attributes_def empty_span_def)
  next
    assume "first_content c = Some []"
    with assms(1,2) show ?thesis
      by (simp add: processPdf_def processPdf_body_def prims Let_def
          processing_msg_def prefix_events_def settled_now_def pending_after_def
          user_prompt_text_def name_attrs_def root_span_def
          set_span_attributes_def empty_span_def)
  qed
qed


lemma processPdf_success:
  assumes "disk e R (path f) = Contents bs"
    and "completions_create e (completion_request f (to_base64 bs) user_prompt_text) = Inr c"
    and "first_content c = Some s" and "s \<noteq> []"
    and "disk e (Suc R) (path_join [cwd e, ''pdfs'', filename f]) = Contents bs2"
  shows "processPdf e f \<lparr>spans = S, stack = K, pending = P, reads = R, trace = T, sink = Z\<rparr> =
    (Inr (),
     \<lparr>spans = S @ [root_span (length S) (filename f) (Some s),
                   system_span (Suc (length S)) (export_string e (length S)) s,
                   user_span (Suc (Suc (length S))) (export_string e (length S))
                     user_prompt_text s (filename f) (url f) (to_base64 bs) bs2],
      stack = K,
      pending = removeAll (length S) (pending_after e (P @ [length S])), reads = Suc (Suc R),
      trace = T @ prefix_events e f bs P (length S) @ children_events e f P (length S)
                @ [SpanLog (Suc (Suc (length S))), SpanEnd (Suc (Suc (length S))),
                   SpanEnd (length S)],
      sink = Z @ [system_span (Suc (length S)) (export_string e (length S)) s,
                  user_span (Suc (Suc (length S))) (export_string e (length S))
                     user_prompt_text s (filename f) (url f) (to_base64 bs) bs2,
                  root_span (length S) (filename f) (Some s)]\<rparr>)"
proof -
  note u = logUserPrompt_ok [of e "Suc R" "filename f" bs2, OF assms(5)]
  show ?thesis
    using assms(1-4)
    by (simp add: processPdf_def processPdf_body_def prims Let_def
        logSystemPrompt_run u resolved_now_removeAll resolved_now_Nil
        processing_msg_def created_msg_def prefix_events_def children_events_def
        settled_now_def pending_after_def
        user_prompt_text_def name_attrs_def root_span_def
        set_span_attributes_def log_span_fields_def empty_span_def)
qed

lemma processPdf_second_read_fail:
  assumes "disk e R (path f) = Contents bs"
    and "completions_create e (completion_request f (to_base64 bs) user_prompt_text) = Inr c"
    and "first_content c = Some s" and "s \<noteq> []"
    and "disk e (Suc R) (path_join [cwd e, ''pdfs'', filename f]) = fr"
    and "fr = Absent \<or> fr = Unreadable"
  shows "processPdf e f \<lparr>spans = S, stack = K, pending = P, reads = R, trace = T, sink = Z\<rparr> =
    (Inl (read_error fr (path_join [cwd e, ''pdfs'', filename f])),
     \<lparr>spans = S @ [root_span (length S) (filename f) (Some s),
                   system_span (Suc (length S)) (export_string e (length S)) s,
                   linked_span (Suc (Suc (length S))) ''user_prompt'' (export_string e (length S))],
      stack = K,
      pending = removeAll (length S) (pending_after e (P @ [length S])), reads = Suc (Suc R),
      trace = T @ prefix_events e f bs P (length S) @ children_events e f P (length S)
                @ [SpanEnd (Suc (Suc (length S))), SpanEnd (length S)],
      sink = Z @ [system_span (Suc (length S)) (export_string e (length S)) s,
                  linked_span (Suc (Suc (length S))) ''user_prompt'' (export_string e (length S)),
                  root_span (length S) (filename f) (Some s)]\<rparr>)"
proof -
  note u = logUserPrompt_fail [of e "Suc R" "filename f" fr, OF assms(5,6)]
  show ?thesis
    using assms(1-4)
    by (simp add: processPdf_def processPdf_body_def prims Let_def
        logSystemPrompt_run u resolved_now_removeAll resolved_now_Nil
        processing_msg_def created_msg_def prefix_events_def children_events_def
        settled_now_def pending_after_def
        user_prompt_text_def name_attrs_def root_span_def
        set_span_attributes_def log_span_fields_def empty_span_def)
qed

section \<open>Base64 as a data URL payload\<close>

lemma to_base64_chars: "set (to_base64 bs) \<subseteq> set b64_alphabet \<union> {CHR ''=''}"
  by (induction bs rule: to_base64.induct) (simp_all add: b64_char_in sextet_less)

lemma newline_not_b64: "CHR 0x0A \<notin> set b64_alphabet \<union> {CHR ''=''}"
  by (simp add: b64_alphabet_def)

lemma return_not_b64: "CHR 0x0D \<notin> set b64_alphabet \<union> {CHR ''=''}"
  by (simp add: b64_alphabet_def)

lemma to_base64_length: "length (to_base64 bs) = 4 * ((length bs + 2) div 3)"
proof (induction bs rule: to_base64.induct)
  case (1 a b c rest)
  have "(length (a # b # c # rest) + 2) div 3 = Suc ((length rest + 2) div 3)"
    by simp
  with 1 show ?case by simp
qed simp_all

lemma parse_data_url_pdf:
  "parse_data_url (''data:application/pdf;base64,'' @ to_base64 bs) = Some (''application/pdf'', bs)"
  by (simp add: parse_data_url_def from_to_base64)

lemma request_file_data_eq:
  "request_file_data (completion_request f b64 up) = [''data:application/pdf;base64,'' @ b64]"
  by (simp add: request_file_data_def completion_request_def)

text \<open>
  Claim C7. The base64 encoding of the file bytes is standard base64 without line
  wrapping: for every byte sequence, the empty one included, decoding the encoding gives
  the bytes back; the encoding consists of alphabet characters and padding only, so it
  holds no line break, and its length is four characters per started group of three
  bytes. The \<^verbatim>\<open>file_data\<close> of the request is the encoding after the prefix
  \<^verbatim>\<open>data:application/pdf;base64,\<close>, and a reader of data URLs gets the content type
  \<^verbatim>\<open>application/pdf\<close> and the original bytes from it.
\<close>

theorem C7_base64_round_trip:
  "from_base64 (to_base64 bs) = Some bs
   \<and> from_base64 (to_base64 []) = Some []
   \<and> set (to_base64 bs) \<subseteq> set b64_alphabet \<union> {CHR ''=''}
   \<and> CHR 0x0A \<notin> set (to_base64 bs) \<and> CHR 0x0D \<notin> set (to_base64 bs)
   \<and> length (to_base64 bs) = 4 * ((length bs + 2) div 3)
   \<and> request_file_data (completion_request f (to_base64 bs) up)
       = [''data:application/pdf;base64,'' @ to_base64 bs]
   \<and> parse_data_url (''data:application/pdf;base64,'' @ to_base64 bs)
       = Some (''application/pdf'', bs)"
proof -
  have "CHR 0x0A \<notin> set (to_base64 bs)"
    using to_base64_chars [of bs] newline_not_b64 by blast
  moreover have "CHR 0x0D \<notin> set (to_base64 bs)"
    using to_base64_chars [of bs] return_not_b64 by blast
  ultimately show ?thesis
    using from_to_base64 [of bs] from_to_base64 [of "[]"] to_base64_chars [of bs]
      to_base64_length [of bs] request_file_data_eq [of f "to_base64 bs" up]
      parse_data_url_pdf [of bs]
    by blast
qed

section \<open>The system prompt span\<close>

lemma sink_logSystemPrompt:
  "sink (snd (logSystemPrompt e fn u s (ExportOf r) w))
     = sink w @ [system_span (length (spans w)) (export_string e r) s]"
  by (cases w) (simp add: logSystemPrompt_run)

text \<open>
  Claim C10. The span that \<^verbatim>\<open>logSystemPrompt\<close> emits does not depend on its filename
  and url arguments: two calls that agree on the summary, on the root identifier and on
  the state give the same result whatever the two filenames and urls are. The record
  handed to the sink is determined by the position of the span, the resolved
  identifier and the summary; its name, type, parent, input and output are determined
  by the identifier and the summary alone.
\<close>

theorem C10_system_prompt_ignores_file:
  "logSystemPrompt e filename1 url1 summary rootSpan w
     = logSystemPrompt e filename2 url2 summary rootSpan w
   \<and> sink (snd (logSystemPrompt e filename1 url1 summary (ExportOf r) w))
     = sink w @ [system_span (length (spans w)) (export_string e r) summary]
   \<and> sink (snd (logSystemPrompt e filename2 url2 summary (ExportOf r) w))
     = sink w @ [system_span (length (spans w)) (export_string e r) summary]
   \<and> name (system_span i ident summary) = Some ''system_prompt''
   \<and> kind (system_span i ident summary) = Some ''llm''
   \<and> parent_ref (system_span i ident summary) = Some ident
   \<and> input (system_span i ident summary)
       = [\<lparr>role = ''system'', content = Text SYSTEM_PROMPT\<rparr>]
   \<and> output (system_span i ident summary) = Some summary"
  by (simp add: sink_logSystemPrompt system_span_def) (simp add: logSystemPrompt_def)

section \<open>Processing one file\<close>

lemma requests_sent_split:
  "requests_sent (xs @ ys) = requests_sent xs @ requests_sent ys"
  by (induction xs rule: requests_sent.induct) simp_all

lemma export_resolved_before_children:
  "ExportResolved n (export_string e n)
     \<in> set (prefix_events e f bs P n @ children_events e f P n)"
  by (simp add: prefix_events_def children_events_def settled_now_def resolved_now_def
      pending_after_def)

lemma reads_settled_now: "filter is_read (settled_now e P) = []"
  by (simp add: settled_now_def)

lemma reads_resolved_now: "filter is_read (resolved_now e r P) = []"
  by (simp add: resolved_now_def)

lemma reads_prefix_events: "filter is_read (prefix_events e f bs P n) = [ReadFile (path f)]"
  by (simp add: prefix_events_def reads_settled_now processing_msg_def)

lemma reads_children_events:
  "filter is_read (children_events e f P n) = [ReadFile (path_join [cwd e, ''pdfs'', filename f])]"
  by (simp add: children_events_def reads_resolved_now created_msg_def)

lemma requests_prefix_events:
  "requests_sent (prefix_events e f bs P n)
     = [completion_request f (to_base64 bs) user_prompt_text]"
proof -
  have "requests_sent (map (\<lambda>i. ExportResolved i (export_string e i)) Q) = []" for Q
    by (induction Q) simp_all
  then have "requests_sent (settled_now e (P @ [n])) = []"
    by (simp add: settled_now_def requests_sent_split)
  then show ?thesis
    by (simp add: prefix_events_def processing_msg_def requests_sent_split)
qed

lemma requests_children_events: "requests_sent (children_events e f P n) = []"
  by (simp add: children_events_def created_msg_def resolved_now_def requests_sent_split)

lemma call_in_prefix:
  "CompletionCall (completion_request f (to_base64 bs) user_prompt_text)
     \<in> set (prefix_events e f bs P n)"
  by (simp add: prefix_events_def)

lemma to_base64_inj: "(to_base64 xs = to_base64 ys) = (xs = ys)"
proof
  assume "to_base64 xs = to_base64 ys"
  then have "from_base64 (to_base64 xs) = from_base64 (to_base64 ys)" by simp
  then show "xs = ys" by (simp add: from_to_base64)
qed simp

lemma initial_fields:
  "spans initial = []" "stack initial = []" "pending initial = []" "reads initial = 0"
  "trace initial = []" "sink initial = []"
  by (simp_all add: initial_def)

lemma silent_env_run:
  "disk silent_env 0 (path scenario_file) = Contents scenario_bytes"
  "completions_create silent_env
     (completion_request scenario_file (to_base64 scenario_bytes) user_prompt_text)
   = Inr (ChatCompletion [])"
  "first_content (ChatCompletion []) = None \<or> first_content (ChatCompletion []) = Some []"
  by (simp_all add: silent_env_def scenario_env_def scenario_file_def)

text \<open>
  Claim C2. When the file is read and the completion call returns no content (no choice,
  no message, no text, or the empty text), processing the file returns normally: no
  error reaches the caller, the warning \<^verbatim>\<open>No summary generated\<close> is written to the
  console, and the only span created and emitted for the file is the root span, which
  has no parent; neither the system prompt span nor the user prompt span exists.
\<close>

theorem C2_empty_completion_returns_early:
  assumes "disk e (reads w) (path f) = Contents bs"
    and "completions_create e (completion_request f (to_base64 bs) user_prompt_text) = Inr c"
    and "first_content c = None \<or> first_content c = Some []"
  shows "fst (processPdf e f w) = Inr ()
    \<and> (let w' = snd (processPdf e f w) in
         Console Warn [Str ''No summary generated'']
           \<in> set (drop (length (trace w)) (trace w'))
       \<and> spans w' = spans w @ [root_span (length (spans w)) (filename f) None]
       \<and> sink w' = sink w @ [root_span (length (spans w)) (filename f) None]
       \<and> parent_ref (root_span (length (spans w)) (filename f) None) = None
       \<and> filter (\<lambda>sp. parent_ref sp \<noteq> None) (drop (length (spans w)) (spans w')) = []
       \<and> filter (\<lambda>sp. parent_ref sp \<noteq> None) (drop (length (sink w)) (sink w')) = [])"
proof (cases w)
  case (fields S K P R T Z)
  with assms have r: "disk e R (path f) = Contents bs" by simp
  show ?thesis
    unfolding fields
    by (simp add: processPdf_no_content [OF r assms(2,3)] Let_def root_span_def)
qed

text \<open>C2 on the scenario with a service that answers with no choice at all.\<close>

theorem C2_empty_completion_witness:
  "fst (processPdf silent_env scenario_file initial) = Inr ()
   \<and> Console Warn [Str ''No summary generated'']
       \<in> set (trace (snd (processPdf silent_env scenario_file initial)))
   \<and> spans (snd (processPdf silent_env scenario_file initial))
       = [root_span 0 ''report.pdf'' None]
   \<and> sink (snd (processPdf silent_env scenario_file initial))
       = [root_span 0 ''report.pdf'' None]"
proof -
  have r: "disk silent_env (reads initial) (path scenario_file) = Contents scenario_bytes"
    by (simp add: initial_fields silent_env_run)
  have fn: "filename scenario_file = ''report.pdf''"
    by (simp add: scenario_file_def)
  from C2_empty_completion_returns_early [OF r silent_env_run(2,3)]
  show ?thesis
    by (simp add: Let_def initial_fields fn)
qed

lemma no_log_in_prefix: "SpanLog i \<notin> set (prefix_events e f bs P n)"
  by (auto simp add: prefix_events_def settled_now_def processing_msg_def)

text \<open>
  Claim C9. When the completion call returns no content, the root span of the file
  is the freshly created span with only its name set to the filename: its output is
  unset, no other field was modified, nothing was logged to it (\<open>SpanLog\<close>), and this
  record is the one handed to the sink when the function returns.
\<close>

theorem C9_root_span_of_empty_completion:
  assumes "disk e (reads w) (path f) = Contents bs"
    and "completions_create e (completion_request f (to_base64 bs) user_prompt_text) = Inr c"
    and "first_content c = None \<or> first_content c = Some []"
  shows "(let w' = snd (processPdf e f w); n = length (spans w) in
           spans w' ! n = set_span_attributes (name_attrs (filename f)) (empty_span n)
         \<and> name (spans w' ! n) = Some (filename f)
         \<and> output (spans w' ! n) = None
         \<and> kind (spans w' ! n) = None \<and> parent_ref (spans w' ! n) = None
         \<and> input (spans w' ! n) = [] \<and> metadata (spans w' ! n) = Map.empty
         \<and> sink w' = sink w @ [spans w' ! n]
         \<and> SpanLog n \<notin> set (drop (length (trace w)) (trace w')))"
proof (cases w)
  case (fields S K P R T Z)
  with assms have r: "disk e R (path f) = Contents bs" by simp
  show ?thesis
    unfolding fields
    by (simp add: processPdf_no_content [OF r assms(2,3)] Let_def root_span_def
        set_span_attributes_def name_attrs_def empty_span_def no_log_in_prefix)
qed

text \<open>C9 on the scenario with a service that answers with no choice at all.\<close>

theorem C9_root_span_witness:
  "name (spans (snd (processPdf silent_env scenario_file initial)) ! 0) = Some ''report.pdf''
   \<and> output (spans (snd (processPdf silent_env scenario_file initial)) ! 0) = None
   \<and> sink (snd (processPdf silent_env scenario_file initial))
       = [spans (snd (processPdf silent_env scenario_file initial)) ! 0]
   \<and> SpanLog 0 \<notin> set (trace (snd (processPdf silent_env scenario_file initial)))"
proof -
  have r: "disk silent_env (reads initial) (path scenario_file) = Contents scenario_bytes"
    by (simp add: initial_fields silent_env_run)
  have fn: "filename scenario_file = ''report.pdf''"
    by (simp add: scenario_file_def)
  from C9_root_span_of_empty_completion [OF r silent_env_run(2,3)]
  show ?thesis
    by (simp add: Let_def initial_fields fn set_span_attributes_def name_attrs_def
        empty_span_def)
qed

text \<open>
  Claim C4. When the file is read and the completion call returns a non-empty text
  \<open>s\<close>, exactly one of the spans created for the file has no parent: the root span,
  named after the file, with output \<open>s\<close>, handed to the sink. Exactly one child span is
  named \<^verbatim>\<open>system_prompt\<close>: its parent reference is the identifier that the export of
  the root span resolved to, its input is the fixed system instruction, its output is
  \<open>s\<close>, and it is handed to the sink. This holds whether or not the later read in
  \<^verbatim>\<open>logUserPrompt\<close> succeeds.
\<close>

theorem C4_root_and_system_prompt_spans:
  assumes "disk e (reads w) (path f) = Contents bs"
    and "completions_create e (completion_request f (to_base64 bs) user_prompt_text) = Inr c"
    and "first_content c = Some s" and "s \<noteq> []"
  shows "(let w' = snd (processPdf e f w); n = length (spans w) in
           filter (\<lambda>sp. parent_ref sp = None) (drop n (spans w'))
             = [root_span n (filename f) (Some s)]
         \<and> spans w' ! n = root_span n (filename f) (Some s)
         \<and> name (spans w' ! n) = Some (filename f)
         \<and> output (spans w' ! n) = Some s
         \<and> spans w' ! n \<in> set (drop (length (sink w)) (sink w'))
         \<and> filter (\<lambda>sp. name sp = Some ''system_prompt'' \<and> parent_ref sp \<noteq> None)
              (drop n (spans w'))
             = [system_span (Suc n) (export_string e n) s]
         \<and> spans w' ! Suc n = system_span (Suc n) (export_string e n) s
         \<and> name (spans w' ! Suc n) = Some ''system_prompt''
         \<and> parent_ref (spans w' ! Suc n) = Some (export_string e n)
         \<and> input (spans w' ! Suc n) = [\<lparr>role = ''system'', content = Text SYSTEM_PROMPT\<rparr>]
         \<and> output (spans w' ! Suc n) = Some s
         \<and> spans w' ! Suc n \<in> set (drop (length (sink w)) (sink w'))
         \<and> ExportResolved n (export_string e n) \<in> set (drop (length (trace w)) (trace w')))"
proof (cases w)
  case (fields S K P R T Z)
  with assms have r: "disk e R (path f) = Contents bs" by simp
  have nth1: "\<And>a b c. (S @ [a, b, c]) ! Suc (length S) = b"
    by (simp add: nth_append)
  note ex = export_resolved_before_children [of "length S" e f bs P]
  show ?thesis
  proof (cases "disk e (Suc R) (path_join [cwd e, ''pdfs'', filename f])")
    case (Contents bs2)
    show ?thesis
      unfolding fields using ex
      by (simp add: processPdf_success [OF r assms(2,3,4) Contents] Let_def nth1
          root_span_def system_span_def user_span_def)
  next
    case Absent
    show ?thesis
      unfolding fields using ex
      by (simp add: processPdf_second_read_fail [OF r assms(2,3,4) Absent] Let_def nth1
          root_span_def system_span_def linked_span_def)
  next
    case Unreadable
    show ?thesis
      unfolding fields using ex
      by (simp add: processPdf_second_read_fail [OF r assms(2,3,4) Unreadable] Let_def nth1
          root_span_def system_span_def linked_span_def)
  qed
qed


lemma scenario_env_run:
  "disk scenario_env n (path scenario_file) = Contents scenario_bytes"
  "completions_create scenario_env req
   = Inr (ChatCompletion [Choice (Some (AssistantMessage (Some scenario_summary)))])"
  "first_content (ChatCompletion [Choice (Some (AssistantMessage (Some scenario_summary)))])
   = Some scenario_summary"
  "scenario_summary \<noteq> []"
  "disk scenario_env n (path_join [cwd scenario_env, ''pdfs'', filename scenario_file])
   = Contents scenario_bytes"
  by (simp_all add: scenario_env_def scenario_file_def answer_def scenario_summary_def)

lemma rewritten_env_run:
  "disk rewritten_env 0 (path scenario_file) = Contents scenario_bytes"
  "completions_create rewritten_env req
   = Inr (ChatCompletion [Choice (Some (AssistantMessage (Some scenario_summary)))])"
  "disk rewritten_env (Suc 0)
     (path_join [cwd rewritten_env, ''pdfs'', filename scenario_file])
   = Contents rewritten_bytes"
  by (simp_all add: rewritten_env_def scenario_env_def scenario_file_def answer_def)

lemma scenario_file_fields:
  "filename scenario_file = ''report.pdf''"
  "path scenario_file = ''/app/pdfs/report.pdf''"
  "url scenario_file = ''https://example.com/report.pdf''"
  by (simp_all add: scenario_file_def)

lemma scenario_file_record:
  "file_record scenario_env scenario_entry = scenario_file"
  "file_record rewritten_env scenario_entry = scenario_file"
  by (simp_all add: file_record_def scenario_env_def rewritten_env_def scenario_entry_def
      scenario_file_def)

lemma rewritten_differs: "rewritten_bytes \<noteq> scenario_bytes"
  by (simp add: rewritten_bytes_def scenario_bytes_def)

text \<open>C4 on the end-to-end scenario.\<close>

theorem C4_root_and_system_prompt_witness:
  "name (spans (snd (processPdf scenario_env scenario_file initial)) ! 0) = Some ''report.pdf''
   \<and> output (spans (snd (processPdf scenario_env scenario_file initial)) ! 0)
       = Some scenario_summary
   \<and> filter (\<lambda>sp. parent_ref sp = None)
        (spans (snd (processPdf scenario_env scenario_file initial)))
       = [root_span 0 ''report.pdf'' (Some scenario_summary)]
   \<and> spans (snd (processPdf scenario_env scenario_file initial)) ! Suc 0
       = system_span (Suc 0) (export_string scenario_env 0) scenario_summary"
proof -
  have r: "disk scenario_env (reads initial) (path scenario_file) = Contents scenario_bytes"
    by (simp add: scenario_env_run)
  from C4_root_and_system_prompt_spans [OF r scenario_env_run(2,3,4)]
  show ?thesis
    by (simp add: Let_def initial_fields scenario_file_fields root_span_def system_span_def)
qed

text \<open>
  Claim C1, amended. When both reads of the file succeed and the completion call
  returns a non-empty text, processing returns normally and the third span created is
  emitted with name \<^verbatim>\<open>user_prompt\<close>, with the resolved export of the root span as
  parent reference, with metadata \<^verbatim>\<open>filename\<close>, \<^verbatim>\<open>url\<close> and \<^verbatim>\<open>base64String\<close> (the
  base64 encoding of the bytes \<open>bs\<close> of the first read), and with an input holding the
  prompt text and one attachment of content type \<^verbatim>\<open>application/pdf\<close> whose data are
  the bytes \<open>bs2\<close> that the read inside \<^verbatim>\<open>logUserPrompt\<close> returned. The data are the
  bytes of the first read exactly when the two reads returned the same bytes.
\<close>

theorem C1_user_prompt_span:
  assumes "disk e (reads w) (path f) = Contents bs"
    and "completions_create e (completion_request f (to_base64 bs) user_prompt_text) = Inr c"
    and "first_content c = Some s" and "s \<noteq> []"
    and "disk e (Suc (reads w)) (path_join [cwd e, ''pdfs'', filename f]) = Contents bs2"
  shows "fst (processPdf e f w) = Inr ()
    \<and> (let w' = snd (processPdf e f w); n = length (spans w); u = spans w' ! Suc (Suc n) in
          u \<in> set (drop (length (sink w)) (sink w'))
        \<and> name u = Some ''user_prompt''
        \<and> parent_ref u = Some (export_string e n)
        \<and> ExportResolved n (export_string e n) \<in> set (drop (length (trace w)) (trace w'))
        \<and> metadata u ''filename'' = Some (filename f)
        \<and> metadata u ''url'' = Some (url f)
        \<and> metadata u ''base64String'' = Some (to_base64 bs)
        \<and> input u = [\<lparr>role = ''user'', content = Text user_prompt_text\<rparr>,
                      \<lparr>role = ''user'',
                       content = Attached \<lparr>data = bs2, att_filename = filename f,
                                            contentType = ''application/pdf''\<rparr>\<rparr>]
        \<and> map contentType (attachments (input u)) = [''application/pdf'']
        \<and> map data (attachments (input u)) = [bs2]
        \<and> (map data (attachments (input u)) = [bs]) = (bs2 = bs))"
proof (cases w)
  case (fields S K P R T Z)
  with assms have r: "disk e R (path f) = Contents bs"
    and r2: "disk e (Suc R) (path_join [cwd e, ''pdfs'', filename f]) = Contents bs2"
    by simp_all
  have nth2: "\<And>a b c. (S @ [a, b, c]) ! Suc (Suc (length S)) = c"
    by (simp add: nth_append)
  note ex = export_resolved_before_children [of "length S" e f bs P]
  show ?thesis
    unfolding fields using ex
    by (simp add: processPdf_success [OF r assms(2,3,4) r2] Let_def nth2
        user_span_def)
qed

text \<open>The amended C1 on the end-to-end scenario, where the file does not change.\<close>

theorem C1_user_prompt_span_witness:
  "fst (processPdf scenario_env scenario_file initial) = Inr ()
   \<and> name (spans (snd (processPdf scenario_env scenario_file initial)) ! Suc (Suc 0))
       = Some ''user_prompt''
   \<and> parent_ref (spans (snd (processPdf scenario_env scenario_file initial)) ! Suc (Suc 0))
       = Some (export_string scenario_env 0)
   \<and> metadata (spans (snd (processPdf scenario_env scenario_file initial)) ! Suc (Suc 0))
        ''base64String'' = Some (to_base64 scenario_bytes)
   \<and> metadata (spans (snd (processPdf scenario_env scenario_file initial)) ! Suc (Suc 0))
        ''url'' = Some ''https://example.com/report.pdf''
   \<and> map data (attachments
        (input (spans (snd (processPdf scenario_env scenario_file initial)) ! Suc (Suc 0))))
       = [scenario_bytes]"
proof -
  have r: "disk scenario_env (reads initial) (path scenario_file) = Contents scenario_bytes"
    by (simp add: scenario_env_run)
  have r2: "disk scenario_env (Suc (reads initial))
      (path_join [cwd scenario_env, ''pdfs'', filename scenario_file]) = Contents scenario_bytes"
    by (rule scenario_env_run(5))
  from C1_user_prompt_span [OF r scenario_env_run(2,3,4) r2]
  show ?thesis
    by (simp add: Let_def initial_fields scenario_file_fields)
qed

text \<open>The run on a file that is rewritten between the two reads.\<close>

lemma rewritten_run:
  "processPdf rewritten_env scenario_file initial =
    (Inr (),
     \<lparr>spans = [root_span 0 ''report.pdf'' (Some scenario_summary),
               system_span (Suc 0) (export_string rewritten_env 0) scenario_summary,
               user_span (Suc (Suc 0)) (export_string rewritten_env 0) user_prompt_text
                 scenario_summary ''report.pdf'' ''https://example.com/report.pdf''
                 (to_base64 scenario_bytes) rewritten_bytes],
      stack = [],
      pending = removeAll 0 (pending_after rewritten_env [0]), reads = Suc (Suc 0),
      trace = prefix_events rewritten_env scenario_file scenario_bytes [] 0
              @ children_events rewritten_env scenario_file [] 0
              @ [SpanLog (Suc (Suc 0)), SpanEnd (Suc (Suc 0)), SpanEnd 0],
      sink = [system_span (Suc 0) (export_string rewritten_env 0) scenario_summary,
              user_span (Suc (Suc 0)) (export_string rewritten_env 0) user_prompt_text
                 scenario_summary ''report.pdf'' ''https://example.com/report.pdf''
                 (to_base64 scenario_bytes) rewritten_bytes,
              root_span 0 ''report.pdf'' (Some scenario_summary)]\<rparr>)"
  using processPdf_success [OF rewritten_env_run(1,2) scenario_env_run(3,4) rewritten_env_run(3),
      of "[]" "[]" "[]" "[]" "[]"]
  by (simp add: initial_def scenario_file_fields)

text \<open>
  Claim C1 as stated fails when the file changes between the read in \<^verbatim>\<open>processPdf\<close>
  and the read in \<^verbatim>\<open>logUserPrompt\<close>: the record is processed successfully, the
  metadata hold the base64 encoding of the original bytes, and the attachment holds
  other bytes.
\<close>

theorem C1_attachment_counterexample:
  "getPdfFiles rewritten_env [scenario_entry] = [scenario_file]
   \<and> fst (processPdf rewritten_env scenario_file initial) = Inr ()
   \<and> disk rewritten_env 0 (path scenario_file) = Contents scenario_bytes
   \<and> name (spans (snd (processPdf rewritten_env scenario_file initial)) ! 2)
       = Some ''user_prompt''
   \<and> metadata (spans (snd (processPdf rewritten_env scenario_file initial)) ! 2)
        ''base64String'' = Some (to_base64 scenario_bytes)
   \<and> map data (attachments
        (input (spans (snd (processPdf rewritten_env scenario_file initial)) ! 2)))
       = [rewritten_bytes]
   \<and> rewritten_bytes \<noteq> scenario_bytes"
proof -
  have "getPdfFiles rewritten_env [scenario_entry] = [scenario_file]"
    by (simp add: getPdfFiles_def rewritten_env_def scenario_env_def scenario_entry_def
        scenario_file_def)
  then show ?thesis
    by (simp add: rewritten_run rewritten_env_run(1) rewritten_differs user_span_def
        numeral_2_eq_2)
qed

text \<open>
  Claim C8. For a record built by \<^verbatim>\<open>getPdfFiles\<close> that is processed successfully, the
  file at \<^verbatim>\<open><cwd>/pdfs/<filename>\<close> is read exactly twice. Exactly one request is sent to
  the completion service, and its \<^verbatim>\<open>file_data\<close> is the data URL of the base64 encoding of
  the bytes of the first read; the metadata hold the same encoding, the attachment
  holds the bytes of the second read, and the encoding of the attachment's data is the metadata string exactly when
  the two reads returned the same bytes.
\<close>

theorem C8_file_is_read_twice:
  assumes "disk e (reads w) (path (file_record e m)) = Contents bs"
    and "completions_create e
           (completion_request (file_record e m) (to_base64 bs) user_prompt_text) = Inr c"
    and "first_content c = Some s" and "s \<noteq> []"
    and "disk e (Suc (reads w)) (path (file_record e m)) = Contents bs2"
  shows "(let w' = snd (processPdf e (file_record e m) w);
              u = spans w' ! Suc (Suc (length (spans w))) in
          filter is_read (drop (length (trace w)) (trace w'))
            = [ReadFile (path_join [cwd e, ''pdfs'', m_filename m]),
               ReadFile (path_join [cwd e, ''pdfs'', m_filename m])]
        \<and> reads w' = Suc (Suc (reads w))
        \<and> CompletionCall (completion_request (file_record e m) (to_base64 bs) user_prompt_text)
            \<in> set (drop (length (trace w)) (trace w'))
        \<and> map request_file_data (requests_sent (drop (length (trace w)) (trace w')))
            = [[''data:application/pdf;base64,'' @ to_base64 bs]]
        \<and> metadata u ''base64String'' = Some (to_base64 bs)
        \<and> map data (attachments (input u)) = [bs2]
        \<and> (map (\<lambda>a. Some (to_base64 (data a))) (attachments (input u))
              = [metadata u ''base64String'']) = (bs2 = bs))"
proof (cases w)
  case (fields S K P R T Z)
  have p: "path (file_record e m) = path_join [cwd e, ''pdfs'', filename (file_record e m)]"
    by (simp add: file_record_def)
  have fn: "filename (file_record e m) = m_filename m"
    by (simp add: file_record_def)
  from fields assms have r: "disk e R (path (file_record e m)) = Contents bs"
    and r2: "disk e (Suc R) (path_join [cwd e, ''pdfs'', filename (file_record e m)])
              = Contents bs2"
    using p by simp_all
  have nth2: "\<And>a b c. (S @ [a, b, c]) ! Suc (Suc (length S)) = c"
    by (simp add: nth_append)
  show ?thesis
    unfolding fields
    by (simp add: processPdf_success [OF r assms(2,3,4) r2] Let_def nth2
        reads_prefix_events reads_children_events user_span_def to_base64_inj p fn
        call_in_prefix requests_sent_split requests_prefix_events requests_children_events
        request_file_data_eq)
qed

text \<open>C8 on a file that is rewritten between the two reads.\<close>

theorem C8_file_is_read_twice_witness:
  "reads (snd (processPdf rewritten_env (file_record rewritten_env scenario_entry) initial))
     = Suc (Suc 0)
   \<and> metadata (spans (snd (processPdf rewritten_env
         (file_record rewritten_env scenario_entry) initial)) ! Suc (Suc 0)) ''base64String''
     = Some (to_base64 scenario_bytes)
   \<and> map data (attachments (input (spans (snd (processPdf rewritten_env
         (file_record rewritten_env scenario_entry) initial)) ! Suc (Suc 0))))
     = [rewritten_bytes]
   \<and> map request_file_data (requests_sent (trace (snd (processPdf rewritten_env
         (file_record rewritten_env scenario_entry) initial))))
     = [[''data:application/pdf;base64,'' @ to_base64 scenario_bytes]]"
proof -
  have r: "disk rewritten_env (reads initial) (path (file_record rewritten_env scenario_entry))
      = Contents scenario_bytes"
    by (simp add: scenario_file_record rewritten_env_run initial_fields)
  have c: "completions_create rewritten_env
      (completion_request (file_record rewritten_env scenario_entry)
         (to_base64 scenario_bytes) user_prompt_text)
      = Inr (ChatCompletion [Choice (Some (AssistantMessage (Some scenario_summary)))])"
    by (rule rewritten_env_run(2))
  have r2: "disk rewritten_env (Suc (reads initial))
      (path (file_record rewritten_env scenario_entry)) = Contents rewritten_bytes"
    unfolding scenario_file_record initial_fields
    by (simp add: scenario_file_fields rewritten_env_def scenario_env_def)
  from C8_file_is_read_twice [OF r c scenario_env_run(3,4) r2]
  show ?thesis
    by (simp add: Let_def initial_fields)
qed

section \<open>The run of the script\<close>

lemma getPdfFiles_map: "getPdfFiles e ms = map (file_record e) ms"
  by (simp add: getPdfFiles_def file_record_def)

lemma main_catch_ok: "main_catch (Inr u, w) = w"
  by (simp add: main_catch_def)

lemma main_catch_error:
  "main_catch (Inl err, \<lparr>spans = S, stack = K, pending = P, reads = R, trace = T, sink = Z\<rparr>)
     = \<lparr>spans = S, stack = K, pending = P, reads = R, trace = T @ catch_events err, sink = Z\<rparr>"
  by (simp add: main_catch_def catch_events_def console_def emit_def Let_def
      split: option.splits)

lemma generateSummary_on_Cons:
  "generateSummary_on e (m # rest) \<lparr>spans = S, stack = K, pending = P, reads = R, trace = T, sink = Z\<rparr>
     = main_catch (processPdf e (file_record e m)
         \<lparr>spans = S, stack = K, pending = P, reads = R,
          trace = T @ [found_msg (Suc (length rest))], sink = Z\<rparr>)"
  by (simp add: generateSummary_on_def getPdfFiles_map Let_def found_msg_def console_def emit_def)

lemma generateSummary_on_Nil:
  "generateSummary_on e [] initial
     = \<lparr>spans = [empty_span 0], stack = [], pending = [], reads = 0,
        trace = [found_msg 0, SpanStart 0, SpanEnd 0]
                @ catch_events (TypeError ''Cannot read properties of undefined''),
        sink = [empty_span 0]\<rparr>"
  by (simp add: generateSummary_on_def getPdfFiles_map Let_def found_msg_def console_def
      processPdf_undefined_def wrapTraced_def span_start_def span_end_def emit_def initial_def
      main_catch_error)

lemma file_record_fields:
  "filename (file_record e m) = m_filename m"
  "path (file_record e m) = path_join [cwd e, ''pdfs'', m_filename m]"
  "url (file_record e m) = m_url m"
  by (simp_all add: file_record_def)

lemma linked_console:
  "linked_after_export e seen (xs @ Console l ps # ys) = linked_after_export e seen (xs @ ys)"
  by (induction e seen xs rule: linked_after_export.induct) simp_all

lemma nested_console:
  "well_nested st (xs @ Console l ps # ys) = well_nested st (xs @ ys)"
  by (induction st xs rule: well_nested.induct) (simp_all split: list.splits)

lemma linked_catch_events:
  "linked_after_export e seen (xs @ catch_events err) = linked_after_export e seen xs"
  by (simp add: catch_events_def linked_console split: option.splits)

lemma nested_catch_events: "well_nested st (xs @ catch_events err) = well_nested st xs"
  by (simp add: catch_events_def nested_console split: option.splits)

lemma filter_catch_events:
  "filter is_read (catch_events err) = []"
  "filter is_processing (catch_events err) = []"
  "filter is_completion_call (catch_events err) = []"
  by (simp_all add: catch_events_def split: option.splits)


lemma not_processing:
  "filter is_processing (settled_now e P) = []"
  "filter is_processing (resolved_now e r P) = []"
  "\<not> is_processing (created_msg f)"
  "is_processing (processing_msg f)"
  "\<not> is_processing (found_msg k)"
  by (simp_all add: settled_now_def resolved_now_def created_msg_def processing_msg_def
      found_msg_def nl_def)


lemma not_read:
  "filter is_read (settled_now e P) = []"
  "filter is_read (resolved_now e r P) = []"
  "\<not> is_read (created_msg f)"
  "\<not> is_read (processing_msg f)"
  "\<not> is_read (found_msg k)"
  by (simp_all add: settled_now_def resolved_now_def created_msg_def processing_msg_def
      found_msg_def)

lemmas event_shapes = prefix_events_def children_events_def processing_msg_def created_msg_def
  name_attrs_def link_attrs_def settled_now_def resolved_now_def pending_after_def

lemma checks_catch_events:
  "linked_after_export e seen (catch_events err)"
  "well_nested st (catch_events err) = (st = [])"
  using linked_catch_events [of e seen "[]" err] nested_catch_events [of st "[]" err]
  by simp_all

lemma pending_catch_events [simp]: "pending_at_calls pend (catch_events err) = []"
  by (simp add: catch_events_def split: option.splits)

lemma requests_catch_events [simp]: "requests_sent (catch_events err) = []"
  by (simp add: catch_events_def split: option.splits)

lemma requests_sent_append [simp]:
  "requests_sent (xs @ ys) = requests_sent xs @ requests_sent ys"
  by (rule requests_sent_split)

lemma length_requests_sent:
  "length (requests_sent xs) = length (filter is_completion_call xs)"
  by (induction xs rule: requests_sent.induct) simp_all

lemma requests_sent_resolved [simp]:
  "requests_sent (map (\<lambda>i. ExportResolved i (export_string e i)) P) = []"
  by (induction P) simp_all

lemma run_outcome:
  "\<exists>S' P' R' Z' evs.
     (\<forall>T. main_catch (processPdf e f
             \<lparr>spans = S, stack = K, pending = P, reads = R, trace = T, sink = Z\<rparr>)
          = \<lparr>spans = S', stack = K, pending = P', reads = R', trace = T @ evs, sink = Z'\<rparr>)
     \<and> (P = [] \<longrightarrow> linked_after_export e [] evs \<and> well_nested [] evs
          \<and> pending_at_calls [] evs
              = replicate (length (filter is_completion_call evs)) [length S])
     \<and> requests_sent evs
         = (case disk e R (path f) of
              Contents bs \<Rightarrow> [completion_request f (to_base64 bs) user_prompt_text]
            | Absent \<Rightarrow> []
            | Unreadable \<Rightarrow> [])
     \<and> filter is_processing evs = [processing_msg f]
     \<and> (filter is_read evs = [ReadFile (path f)]
        \<or> filter is_read evs
            = [ReadFile (path f), ReadFile (path_join [cwd e, ''pdfs'', filename f])])
     \<and> length (filter is_completion_call evs) \<le> 1
     \<and> length (filter (\<lambda>sp. parent_ref sp = None) (drop (length S) S')) = 1"
  (is "\<exists>S' P' R' Z' evs. ?Q S' P' R' Z' evs")
proof (cases "disk e R (path f)")
  case Absent
  have "?Q (S @ [empty_span (length S)]) P (Suc R) (Z @ [empty_span (length S)])
          ([SpanStart (length S), processing_msg f, ReadFile (path f), SpanEnd (length S)]
           @ catch_events (read_error Absent (path f)))"
    by (simp add: Absent processPdf_read_fail [OF Absent] main_catch_error checks_catch_events
        filter_catch_events processing_msg_def empty_span_def)
  then show ?thesis by blast
next
  case Unreadable
  have "?Q (S @ [empty_span (length S)]) P (Suc R) (Z @ [empty_span (length S)])
          ([SpanStart (length S), processing_msg f, ReadFile (path f), SpanEnd (length S)]
           @ catch_events (read_error Unreadable (path f)))"
    by (simp add: Unreadable processPdf_read_fail [OF Unreadable] main_catch_error checks_catch_events
        filter_catch_events processing_msg_def empty_span_def)
  then show ?thesis by blast
next
  case (Contents bs)
  note first_read = Contents
  show ?thesis
  proof (cases "completions_create e (completion_request f (to_base64 bs) user_prompt_text)")
    case (Inl err)
    have "?Q (S @ [root_span (length S) (filename f) None])
            (pending_after e (P @ [length S])) (Suc R)
            (Z @ [root_span (length S) (filename f) None])
            (prefix_events e f bs P (length S) @ [SpanEnd (length S)] @ catch_events err)"
      by (simp add: first_read processPdf_upstream_fail [OF Contents Inl] main_catch_error
          checks_catch_events filter_catch_events event_shapes root_span_def)
    then show ?thesis by blast
  next
    case (Inr c)
    show ?thesis
    proof (cases "first_content c = None \<or> first_content c = Some []")
      case True
      have "?Q (S @ [root_span (length S) (filename f) None])
              (pending_after e (P @ [length S])) (Suc R)
              (Z @ [root_span (length S) (filename f) None])
              (prefix_events e f bs P (length S)
               @ [Console Warn [Str ''No summary generated''], SpanEnd (length S)])"
        by (simp add: first_read processPdf_no_content [OF Contents Inr True] main_catch_ok event_shapes root_span_def)
      then show ?thesis by blast
    next
      case False
      then obtain s where s: "first_content c = Some s" "s \<noteq> []"
        by (cases "first_content c") auto
      show ?thesis
      proof (cases "disk e (Suc R) (path_join [cwd e, ''pdfs'', filename f])")
        case (Contents bs2)
        note ok = processPdf_success [OF \<open>disk e R (path f) = Contents bs\<close> Inr s Contents]
        have "?Q (S @ [root_span (length S) (filename f) (Some s),
                   system_span (Suc (length S)) (export_string e (length S)) s,
                   user_span (Suc (Suc (length S))) (export_string e (length S))
                     user_prompt_text s (filename f) (url f) (to_base64 bs) bs2])
               (removeAll (length S) (pending_after e (P @ [length S]))) (Suc (Suc R))
               (Z @ [system_span (Suc (length S)) (export_string e (length S)) s,
                  user_span (Suc (Suc (length S))) (export_string e (length S))
                     user_prompt_text s (filename f) (url f) (to_base64 bs) bs2,
                  root_span (length S) (filename f) (Some s)])
               (prefix_events e f bs P (length S) @ children_events e f P (length S)
                @ [SpanLog (Suc (Suc (length S))), SpanEnd (Suc (Suc (length S))),
                   SpanEnd (length S)])"
          by (simp add: first_read ok main_catch_ok event_shapes nl_def root_span_def system_span_def
              user_span_def)
        then show ?thesis by blast
      next
        case Absent
        note ko = processPdf_second_read_fail
          [OF \<open>disk e R (path f) = Contents bs\<close> Inr s Absent disjI1 [OF refl]]
        have "?Q (S @ [root_span (length S) (filename f) (Some s),
                   system_span (Suc (length S)) (export_string e (length S)) s,
                   linked_span (Suc (Suc (length S))) ''user_prompt''
                     (export_string e (length S))])
               (removeAll (length S) (pending_after e (P @ [length S]))) (Suc (Suc R))
               (Z @ [system_span (Suc (length S)) (export_string e (length S)) s,
                  linked_span (Suc (Suc (length S))) ''user_prompt''
                     (export_string e (length S)),
                  root_span (length S) (filename f) (Some s)])
               (prefix_events e f bs P (length S) @ children_events e f P (length S)
                @ [SpanEnd (Suc (Suc (length S))), SpanEnd (length S)]
                @ catch_events (read_error Absent (path_join [cwd e, ''pdfs'', filename f])))"
          by (simp add: first_read ko main_catch_error checks_catch_events filter_catch_events
              event_shapes nl_def root_span_def system_span_def linked_span_def)
        then show ?thesis by blast
      next
        case Unreadable
        note ko = processPdf_second_read_fail
          [OF \<open>disk e R (path f) = Contents bs\<close> Inr s Unreadable disjI2 [OF refl]]
        have "?Q (S @ [root_span (length S) (filename f) (Some s),
                   system_span (Suc (length S)) (export_string e (length S)) s,
                   linked_span (Suc (Suc (length S))) ''user_prompt''
                     (export_string e (length S))])
               (removeAll (length S) (pending_after e (P @ [length S]))) (Suc (Suc R))
               (Z @ [system_span (Suc (length S)) (export_string e (length S)) s,
                  linked_span (Suc (Suc (length S))) ''user_prompt''
                     (export_string e (length S)),
                  root_span (length S) (filename f) (Some s)])
               (prefix_events e f bs P (length S) @ children_events e f P (length S)
                @ [SpanEnd (Suc (Suc (length S))), SpanEnd (length S)]
                @ catch_events (read_error Unreadable (path_join [cwd e, ''pdfs'', filename f])))"
          by (simp add: first_read ko main_catch_error checks_catch_events filter_catch_events
              event_shapes nl_def root_span_def system_span_def linked_span_def)
        then show ?thesis by blast
      qed
    qed
  qed
qed

lemma later_event:
  assumes "\<exists>k<j. \<exists>r<i. es ! k = ExportResolved r s \<and> s = export_string e r"
  shows "\<exists>k<Suc j. \<exists>r<i. (x # es) ! k = ExportResolved r s \<and> s = export_string e r"
proof -
  from assms obtain k r where "k < j" "r < i" "es ! k = ExportResolved r s"
    "s = export_string e r" by blast
  then have "Suc k < Suc j \<and> r < i \<and> (x # es) ! Suc k = ExportResolved r s
      \<and> s = export_string e r" by simp
  then show ?thesis by blast
qed

lemma linked_after_export_skip:
  assumes "linked_after_export e seen (x # es)" "\<And>r s. x \<noteq> ExportResolved r s"
  shows "linked_after_export e seen es"
proof (cases x)
  case (ExportResolved r s)
  with assms(2) show ?thesis by blast
qed (use assms(1) in simp_all)

text \<open>
  What the checker establishes: a link at position \<open>j\<close> of the trace is preceded by the
  event that resolved the linked identifier as the export of an older span.
\<close>

lemma linked_after_export_nth:
  assumes "linked_after_export e seen tr" "j < length tr" "tr ! j = SetAttributes i a"
    "a_parent a = Some s"
  shows "(\<exists>r\<in>set seen. r < i \<and> s = export_string e r)
       \<or> (\<exists>k<j. \<exists>r<i. tr ! k = ExportResolved r s \<and> s = export_string e r)"
  using assms
proof (induction tr arbitrary: seen j)
  case Nil
  then show ?case by simp
next
  case (Cons x es)
  show ?case
  proof (cases j)
    case 0
    with Cons.prems have "x = SetAttributes i a" by simp
    with Cons.prems(1,4) show ?thesis by simp
  next
    case (Suc j')
    with Cons.prems have j': "j' < length es" "es ! j' = SetAttributes i a" by simp_all
    show ?thesis
    proof (cases "\<exists>r' s'. x = ExportResolved r' s'")
      case True
      then obtain r' s' where x: "x = ExportResolved r' s'" by blast
      with Cons.prems(1) have s': "s' = export_string e r'"
        and tl: "linked_after_export e (r' # seen) es" by simp_all
      from Cons.IH [OF tl j' Cons.prems(4)]
      consider (new) "r' < i" "s = export_string e r'"
        | (old) "\<exists>r\<in>set seen. r < i \<and> s = export_string e r"
        | (later) "\<exists>k<j'. \<exists>r<i. es ! k = ExportResolved r s \<and> s = export_string e r"
        by auto
      then show ?thesis
      proof cases
        case new
        then have "0 < j \<and> r' < i \<and> (x # es) ! 0 = ExportResolved r' s
            \<and> s = export_string e r'"
          using Suc x s' by simp
        then show ?thesis by blast
      next
        case old
        then show ?thesis by blast
      next
        case later
        then show ?thesis using later_event [of j' i es s e x] Suc by blast
      qed
    next
      case False
      then have tl: "linked_after_export e seen es"
        using linked_after_export_skip [OF Cons.prems(1)] by blast
      from Cons.IH [OF tl j' Cons.prems(4)] show ?thesis
        using later_event [of j' i es s e x] Suc by blast
    qed
  qed
qed

text \<open>The run on a non-empty manifest, from the initial state.\<close>

lemma run_from_initial:
  "\<exists>S' P' R' Z' evs.
     generateSummary_on e (m # rest) initial
       = \<lparr>spans = S', stack = [], pending = P', reads = R',
          trace = found_msg (Suc (length rest)) # evs, sink = Z'\<rparr>
     \<and> linked_after_export e [] evs \<and> well_nested [] evs
     \<and> pending_at_calls [] evs = replicate (length (filter is_completion_call evs)) [0]
     \<and> requests_sent evs
         = (case disk e 0 (path_join [cwd e, ''pdfs'', m_filename m]) of
              Contents bs \<Rightarrow>
                [completion_request (file_record e m) (to_base64 bs) user_prompt_text]
            | Absent \<Rightarrow> []
            | Unreadable \<Rightarrow> [])
     \<and> filter is_processing evs = [processing_msg (file_record e m)]
     \<and> (filter is_read evs = [ReadFile (path_join [cwd e, ''pdfs'', m_filename m])]
        \<or> filter is_read evs
            = [ReadFile (path_join [cwd e, ''pdfs'', m_filename m]),
               ReadFile (path_join [cwd e, ''pdfs'', m_filename m])])
     \<and> length (filter is_completion_call evs) \<le> 1
     \<and> length (filter (\<lambda>sp. parent_ref sp = None) S') = 1"
proof -
  from run_outcome [of e "file_record e m" "[]" "[]" "[]" 0 "[]"]
  obtain S' P' R' Z' evs where
    run: "\<And>T. main_catch (processPdf e (file_record e m)
             \<lparr>spans = [], stack = [], pending = [], reads = 0, trace = T, sink = []\<rparr>)
          = \<lparr>spans = S', stack = [], pending = P', reads = R', trace = T @ evs, sink = Z'\<rparr>"
    and props: "linked_after_export e [] evs" "well_nested [] evs"
      "pending_at_calls [] evs = replicate (length (filter is_completion_call evs)) [0]"
      "requests_sent evs
         = (case disk e 0 (path (file_record e m)) of
              Contents bs \<Rightarrow>
                [completion_request (file_record e m) (to_base64 bs) user_prompt_text]
            | Absent \<Rightarrow> []
            | Unreadable \<Rightarrow> [])"
      "filter is_processing evs = [processing_msg (file_record e m)]"
      "filter is_read evs = [ReadFile (path (file_record e m))]
        \<or> filter is_read evs
            = [ReadFile (path (file_record e m)),
               ReadFile (path_join [cwd e, ''pdfs'', filename (file_record e m)])]"
      "length (filter is_completion_call evs) \<le> 1"
      "length (filter (\<lambda>sp. parent_ref sp = None) S') = 1"
    by auto
  have "generateSummary_on e (m # rest) initial
       = \<lparr>spans = S', stack = [], pending = P', reads = R',
          trace = found_msg (Suc (length rest)) # evs, sink = Z'\<rparr>"
    by (simp add: initial_def generateSummary_on_Cons run)
  with props show ?thesis
    unfolding file_record_fields by blast
qed

text \<open>
  Claim C3. In a run of the script, whenever a span \<open>i\<close> is given a parent reference
  \<open>s\<close> (event \<open>j\<close> of the trace), \<open>s\<close> is the string that the export of an older span
  \<open>r\<close> resolved to, and the event that produced it is strictly earlier in the trace
  (\<open>k < j\<close>). The value assigned is a string, the result of awaiting the promise, by
  the type of \<open>a_parent\<close>. This holds for every manifest, for every behaviour of the file
  system and of the completion service, and whether the export settles during the
  completion call or only when it is awaited.
\<close>

theorem C3_link_after_export:
  assumes "j < length (trace (generateSummary_on e manifest initial))"
    and "trace (generateSummary_on e manifest initial) ! j = SetAttributes i a"
    and "a_parent a = Some s"
  shows "\<exists>k<j. \<exists>r<i. trace (generateSummary_on e manifest initial) ! k = ExportResolved r s
            \<and> s = export_string e r"
proof -
  have "linked_after_export e [] (trace (generateSummary_on e manifest initial))"
  proof (cases manifest)
    case Nil
    then show ?thesis
      by (simp add: generateSummary_on_Nil found_msg_def checks_catch_events)
  next
    case (Cons m rest)
    from run_from_initial [of e m rest] show ?thesis
      unfolding Cons by (auto simp add: found_msg_def)
  qed
  from linked_after_export_nth [OF this assms] show ?thesis by simp
qed

text \<open>The end-to-end scenario, event by event.\<close>

lemma scenario_run:
  "generateSummary_on scenario_env [scenario_entry] initial =
     \<lparr>spans = [root_span 0 ''report.pdf'' (Some scenario_summary),
               system_span (Suc 0) (export_string scenario_env 0) scenario_summary,
               user_span (Suc (Suc 0)) (export_string scenario_env 0) user_prompt_text
                 scenario_summary ''report.pdf'' ''https://example.com/report.pdf''
                 (to_base64 scenario_bytes) scenario_bytes],
      stack = [], pending = [], reads = Suc (Suc 0),
      trace = [found_msg 1, SpanStart 0, processing_msg scenario_file,
               ReadFile ''/app/pdfs/report.pdf'',
               SetAttributes 0 (name_attrs ''report.pdf''), ExportCalled 0,
               CompletionCall (completion_request scenario_file (to_base64 scenario_bytes)
                                 user_prompt_text),
               created_msg scenario_file, SpanLog 0, SpanStart 1,
               ExportResolved 0 (export_string scenario_env 0),
               SetAttributes 1 (link_attrs ''system_prompt'' (export_string scenario_env 0)),
               SpanLog 1, SpanEnd 1, SpanStart 2,
               SetAttributes 2 (link_attrs ''user_prompt'' (export_string scenario_env 0)),
               ReadFile ''/app/pdfs/report.pdf'', SpanLog 2, SpanEnd 2, SpanEnd 0],
      sink = [system_span (Suc 0) (export_string scenario_env 0) scenario_summary,
              user_span (Suc (Suc 0)) (export_string scenario_env 0) user_prompt_text
                 scenario_summary ''report.pdf'' ''https://example.com/report.pdf''
                 (to_base64 scenario_bytes) scenario_bytes,
              root_span 0 ''report.pdf'' (Some scenario_summary)]\<rparr>"
proof -
  have early: "export_settles_early scenario_env = False"
    and cwd: "cwd scenario_env = ''/app''"
    by (simp_all add: scenario_env_def)
  note ok = processPdf_success [OF scenario_env_run(1,2,3,4,5)]
  show ?thesis
    unfolding initial_def generateSummary_on_Cons scenario_file_record
    by (simp add: ok main_catch_ok scenario_file_fields prefix_events_def children_events_def
        settled_now_def resolved_now_def pending_after_def early cwd)
qed

text \<open>
  C3 on the end-to-end scenario: event 11 links the system prompt span to the
  identifier that event 10 resolved.
\<close>

theorem C3_link_after_export_witness:
  "trace (generateSummary_on scenario_env [scenario_entry] initial) ! 11
     = SetAttributes 1 (link_attrs ''system_prompt'' (export_string scenario_env 0))
   \<and> (\<exists>k<11. \<exists>r<1.
         trace (generateSummary_on scenario_env [scenario_entry] initial) ! k
           = ExportResolved r (export_string scenario_env 0)
         \<and> export_string scenario_env 0 = export_string scenario_env r)"
proof -
  have h1: "11 < length (trace (generateSummary_on scenario_env [scenario_entry] initial))"
    by (simp add: scenario_run)
  have h2: "trace (generateSummary_on scenario_env [scenario_entry] initial) ! 11
     = SetAttributes 1 (link_attrs ''system_prompt'' (export_string scenario_env 0))"
    by (simp add: scenario_run)
  have h3: "a_parent (link_attrs ''system_prompt'' (export_string scenario_env 0))
     = Some (export_string scenario_env 0)"
    by (simp add: link_attrs_def)
  from C3_link_after_export [OF h1 h2 h3] h2 show ?thesis by blast
qed


text \<open>The run does not depend on the entries after the first one, except for the count.\<close>

lemma run_frame:
  "\<exists>S' P' R' Z' evs.
     generateSummary_on e (m # rest0) w
          = \<lparr>spans = S', stack = stack w, pending = P', reads = R',
             trace = trace w @ found_msg (Suc (length rest0)) # evs, sink = Z'\<rparr>
       \<and> generateSummary_on e (m # rest1) w
          = \<lparr>spans = S', stack = stack w, pending = P', reads = R',
             trace = trace w @ found_msg (Suc (length rest1)) # evs, sink = Z'\<rparr>"
proof (cases w)
  case (fields S K P R T Z)
  from run_outcome [of e "file_record e m" S K P R Z]
  obtain S' P' R' Z' evs where
    run: "\<And>T. main_catch (processPdf e (file_record e m)
             \<lparr>spans = S, stack = K, pending = P, reads = R, trace = T, sink = Z\<rparr>)
          = \<lparr>spans = S', stack = K, pending = P', reads = R', trace = T @ evs, sink = Z'\<rparr>"
    by auto
  show ?thesis
    unfolding fields by (simp add: generateSummary_on_Cons run)
qed

text \<open>
  Claim C5, amended. A run over a manifest processes its first record only. Apart from
  the count in the first console line, the run over \<open>m # rest\<close> equals the run over the
  manifest \<open>[m]\<close>: same spans, same records in the sink, same reads, same events. From
  the initial state there is exactly one \<^verbatim>\<open>Processing\<close> line, naming the first file;
  every file read is a read of \<^verbatim>\<open><cwd>/pdfs/<first filename>\<close>; exactly one span without
  parent is created; the span lifetimes in the trace are nested, each span being closed
  before the next one of the same level starts; and one completion call is made if the
  first read succeeds, none otherwise. For the manifest of the script the only file
  processed and read is the first one listed. Execution is not strictly sequential:
  the export of the root span (span 0), started at line 65 and not awaited there, is
  in flight at every completion call, and nothing else is.
\<close>

theorem C5_only_first_record:
  "(let G = generateSummary_on e (m # rest) w; G1 = generateSummary_on e [m] w in
      spans G = spans G1 \<and> sink G = sink G1 \<and> reads G = reads G1
    \<and> pending G = pending G1 \<and> stack G = stack G1
    \<and> take (length (trace w)) (trace G) = trace w
    \<and> trace G ! length (trace w) = found_msg (Suc (length rest))
    \<and> drop (Suc (length (trace w))) (trace G) = drop (Suc (length (trace w))) (trace G1))
   \<and> (let tr = trace (generateSummary_on e (m # rest) initial);
           p = path_join [cwd e, ''pdfs'', m_filename m] in
        filter is_processing tr
          = [Console Log [Str ''Processing '', Str (m_filename m), Str ''...'']]
      \<and> (filter is_read tr = [ReadFile p] \<or> filter is_read tr = [ReadFile p, ReadFile p])
      \<and> length (filter (\<lambda>sp. parent_ref sp = None)
                  (spans (generateSummary_on e (m # rest) initial))) = 1
      \<and> well_nested [] tr
      \<and> requests_sent tr
          = (case disk e 0 p of
               Contents bs \<Rightarrow>
                 [completion_request (file_record e m) (to_base64 bs) user_prompt_text]
             | Absent \<Rightarrow> []
             | Unreadable \<Rightarrow> [])
      \<and> pending_at_calls [] tr = map (\<lambda>req. [0]) (requests_sent tr))
   \<and> filter is_processing (trace (generateSummary e))
        = [Console Log [Str ''Processing '', Str ''META-Q4-2024-Earnings-Call-Transcript.pdf'',
                        Str ''...'']]
   \<and> set (filter is_read (trace (generateSummary e)))
        = {ReadFile (path_join [cwd e, ''pdfs'', ''META-Q4-2024-Earnings-Call-Transcript.pdf''])}"
proof -
  from run_frame [of e m rest w "[]"]
  have a: "(let G = generateSummary_on e (m # rest) w; G1 = generateSummary_on e [m] w in
      spans G = spans G1 \<and> sink G = sink G1 \<and> reads G = reads G1
    \<and> pending G = pending G1 \<and> stack G = stack G1
    \<and> take (length (trace w)) (trace G) = trace w
    \<and> trace G ! length (trace w) = found_msg (Suc (length rest))
    \<and> drop (Suc (length (trace w))) (trace G) = drop (Suc (length (trace w))) (trace G1))"
    by (auto simp add: Let_def)
  from run_from_initial [of e m rest]
  have b: "(let tr = trace (generateSummary_on e (m # rest) initial);
           p = path_join [cwd e, ''pdfs'', m_filename m] in
        filter is_processing tr
          = [Console Log [Str ''Processing '', Str (m_filename m), Str ''...'']]
      \<and> (filter is_read tr = [ReadFile p] \<or> filter is_read tr = [ReadFile p, ReadFile p])
      \<and> length (filter (\<lambda>sp. parent_ref sp = None)
                  (spans (generateSummary_on e (m # rest) initial))) = 1
      \<and> well_nested [] tr
      \<and> requests_sent tr
          = (case disk e 0 p of
               Contents bs \<Rightarrow>
                 [completion_request (file_record e m) (to_base64 bs) user_prompt_text]
             | Absent \<Rightarrow> []
             | Unreadable \<Rightarrow> [])
      \<and> pending_at_calls [] tr = map (\<lambda>req. [0]) (requests_sent tr))"
    by (auto simp add: Let_def not_processing not_read found_msg_def processing_msg_def
        file_record_fields length_requests_sent [symmetric] map_replicate_const)
  have pdf: "pdfFiles = hd pdfFiles # tl pdfFiles"
    and first: "m_filename (hd pdfFiles) = ''META-Q4-2024-Earnings-Call-Transcript.pdf''"
    by (simp_all add: pdfFiles_def)
  from run_from_initial [of e "hd pdfFiles" "tl pdfFiles"]
  obtain S' P' R' Z' evs where
    run: "generateSummary e
       = \<lparr>spans = S', stack = [], pending = P', reads = R',
          trace = found_msg (Suc (length (tl pdfFiles))) # evs, sink = Z'\<rparr>"
    and procs: "filter is_processing evs = [processing_msg (file_record e (hd pdfFiles))]"
    and rds: "filter is_read evs
                = [ReadFile (path_join [cwd e, ''pdfs'', m_filename (hd pdfFiles)])]
        \<or> filter is_read evs
            = [ReadFile (path_join [cwd e, ''pdfs'', m_filename (hd pdfFiles)]),
               ReadFile (path_join [cwd e, ''pdfs'', m_filename (hd pdfFiles)])]"
    unfolding generateSummary_def pdf [symmetric] by blast
  have tr: "filter is_processing (trace (generateSummary e)) = filter is_processing evs"
    "filter is_read (trace (generateSummary e)) = filter is_read evs"
    by (simp_all add: run not_processing not_read)
  from rds have "set (filter is_read evs)
      = {ReadFile (path_join [cwd e, ''pdfs'', m_filename (hd pdfFiles)])}"
  proof
    assume one: "filter is_read evs
      = [ReadFile (path_join [cwd e, ''pdfs'', m_filename (hd pdfFiles)])]"
    show ?thesis unfolding one by simp
  next
    assume two: "filter is_read evs
      = [ReadFile (path_join [cwd e, ''pdfs'', m_filename (hd pdfFiles)]),
         ReadFile (path_join [cwd e, ''pdfs'', m_filename (hd pdfFiles)])]"
    show ?thesis unfolding two by simp
  qed
  with procs have c: "filter is_processing (trace (generateSummary e))
        = [Console Log [Str ''Processing '', Str ''META-Q4-2024-Earnings-Call-Transcript.pdf'',
                        Str ''...'']]
   \<and> set (filter is_read (trace (generateSummary e)))
        = {ReadFile (path_join [cwd e, ''pdfs'', ''META-Q4-2024-Earnings-Call-Transcript.pdf''])}"
    unfolding tr first
    by (simp add: processing_msg_def file_record_fields first)
  from a b c show ?thesis by blast
qed


text \<open>Failures before the child spans.\<close>

lemma catch_events_eq:
  "catch_events err =
     [Console Error [Str ''Error in main:'', Err err]]
     @ (case response_data err of
          None \<Rightarrow> []
        | Some d \<Rightarrow> if d = [] then [] else [Console Error [Str ''Response data:'', Str d]])"
  by (simp add: catch_events_def)









text \<open>C5 on the manifest of the script with the scenario's environment.\<close>

theorem C5_only_first_record_witness:
  "filter is_processing (trace (generateSummary scenario_env))
     = [Console Log [Str ''Processing '', Str ''META-Q4-2024-Earnings-Call-Transcript.pdf'',
                     Str ''...'']]
   \<and> spans (generateSummary_on scenario_env (scenario_entry # tl pdfFiles) initial)
     = spans (generateSummary_on scenario_env [scenario_entry] initial)
   \<and> well_nested [] (trace (generateSummary_on scenario_env (scenario_entry # tl pdfFiles)
                               initial))"
  using C5_only_first_record [of scenario_env scenario_entry "tl pdfFiles" initial]
  by (clarsimp simp add: Let_def)

text \<open>Runs of the script in which every file of its manifest is present.\<close>

lemma stocked_env_run:
  "disk stocked_env n p = Contents scenario_bytes"
  "completions_create stocked_env req
   = Inr (ChatCompletion [Choice (Some (AssistantMessage (Some scenario_summary)))])"
  "export_settles_early stocked_env = False"
  "disk stocked_early_env n p = Contents scenario_bytes"
  "completions_create stocked_early_env req
   = Inr (ChatCompletion [Choice (Some (AssistantMessage (Some scenario_summary)))])"
  "export_settles_early stocked_early_env = True"
  by (simp_all add: stocked_env_def stocked_early_env_def scenario_env_def answer_def)

lemma stocked_trace:
  "trace (generateSummary stocked_env)
     = found_msg (Suc (length (tl pdfFiles)))
       # prefix_events stocked_env (file_record stocked_env (hd pdfFiles)) scenario_bytes [] 0
       @ children_events stocked_env (file_record stocked_env (hd pdfFiles)) [] 0
       @ [SpanLog (Suc (Suc 0)), SpanEnd (Suc (Suc 0)), SpanEnd 0]"
  "trace (generateSummary stocked_early_env)
     = found_msg (Suc (length (tl pdfFiles)))
       # prefix_events stocked_early_env (file_record stocked_early_env (hd pdfFiles))
           scenario_bytes [] 0
       @ children_events stocked_early_env (file_record stocked_early_env (hd pdfFiles)) [] 0
       @ [SpanLog (Suc (Suc 0)), SpanEnd (Suc (Suc 0)), SpanEnd 0]"
proof -
  have pdf: "pdfFiles = hd pdfFiles # tl pdfFiles"
    by (simp add: pdfFiles_def)
  note ok = processPdf_success [OF stocked_env_run(1,2) scenario_env_run(3,4) stocked_env_run(1)]
  note ok_early =
    processPdf_success [OF stocked_env_run(4,5) scenario_env_run(3,4) stocked_env_run(4)]
  have "generateSummary stocked_env
      = generateSummary_on stocked_env (hd pdfFiles # tl pdfFiles) initial"
    unfolding generateSummary_def using pdf by simp
  then show "trace (generateSummary stocked_env)
     = found_msg (Suc (length (tl pdfFiles)))
       # prefix_events stocked_env (file_record stocked_env (hd pdfFiles)) scenario_bytes [] 0
       @ children_events stocked_env (file_record stocked_env (hd pdfFiles)) [] 0
       @ [SpanLog (Suc (Suc 0)), SpanEnd (Suc (Suc 0)), SpanEnd 0]"
    by (simp add: initial_def generateSummary_on_Cons ok main_catch_ok)
  have "generateSummary stocked_early_env
      = generateSummary_on stocked_early_env (hd pdfFiles # tl pdfFiles) initial"
    unfolding generateSummary_def using pdf by simp
  then show "trace (generateSummary stocked_early_env)
     = found_msg (Suc (length (tl pdfFiles)))
       # prefix_events stocked_early_env (file_record stocked_early_env (hd pdfFiles))
           scenario_bytes [] 0
       @ children_events stocked_early_env (file_record stocked_early_env (hd pdfFiles)) [] 0
       @ [SpanLog (Suc (Suc 0)), SpanEnd (Suc (Suc 0)), SpanEnd 0]"
    by (simp add: initial_def generateSummary_on_Cons ok_early main_catch_ok)
qed

text \<open>
  Claim C5 as stated fails in its last clause: in a run over the manifest of the script
  the export of the root span is requested (event 5) before the completion call is
  issued (event 6) and resolves after it, when \<^verbatim>\<open>logSystemPrompt\<close> awaits it (event 10)
  or, if it settles early, while the script is suspended in the call (event 7). The
  export is in flight when the completion call is issued.
\<close>

theorem C5_export_in_flight_counterexample:
  "trace (generateSummary stocked_env) ! 5 = ExportCalled 0
   \<and> is_completion_call (trace (generateSummary stocked_env) ! 6)
   \<and> trace (generateSummary stocked_env) ! 10 = ExportResolved 0 (export_string stocked_env 0)
   \<and> pending_at_calls [] (trace (generateSummary stocked_env)) = [[0]]
   \<and> trace (generateSummary stocked_early_env) ! 5 = ExportCalled 0
   \<and> is_completion_call (trace (generateSummary stocked_early_env) ! 6)
   \<and> trace (generateSummary stocked_early_env) ! 7
       = ExportResolved 0 (export_string stocked_early_env 0)
   \<and> pending_at_calls [] (trace (generateSummary stocked_early_env)) = [[0]]"
  by (simp add: stocked_trace event_shapes found_msg_def stocked_env_run(3,6))

end
